theory Spec2Isabelle
  imports Complex_Main "HOL-Library.List_Lexorder"
begin

section \<open>Python values\<close>

text \<open>
  A Python \<open>str\<close> is a sequence of Unicode code points; \<open>len\<close>, slicing and
  comparison work on code points, so a string is modelled as a list of code points.
  Comparison of strings (\<open>sorted\<close>) is the lexicographic order of the lists.
\<close>

type_synonym pystr = "nat list"

text \<open>
  A cell of a data frame read from a spreadsheet. \<open>NaN\<close> stands for every value on
  which \<open>pd.isna\<close> is true (an empty cell, \<open>None\<close>, \<open>NaT\<close>). A float carries
  its (finite) value and the text \<open>str\<close> gives for it; a date or timestamp carries
  year, month, day and the text \<open>str\<close> gives for it.
\<close>

datatype cell =
    NaN
  | Str pystr
  | IntV int
  | FloatV rat pystr
  | DateV int nat nat pystr

text \<open>
  The behaviour of the libraries the scripts call is not part of the repository. What
  cannot be written down from the sources is a parameter of the model: the Unicode case
  mappings, the width conversions of \<open>mojimoji\<close>, the character class \<open>\d\<close> of
  \<open>re\<close>, \<open>str.isdigit\<close>, \<open>int\<close> on a string and the parser behind
  \<open>pd.to_datetime\<close>.
\<close>

datatype parsed = Raises | NaT | Timestamp int nat nat

record pylib =
  str_lower :: "pystr \<Rightarrow> pystr"
  str_upper :: "pystr \<Rightarrow> pystr"
  zen_to_han :: "pystr \<Rightarrow> pystr"
  zen_to_han_nokana :: "pystr \<Rightarrow> pystr"
  han_to_zen_kana :: "pystr \<Rightarrow> pystr"
  re_digit :: "nat \<Rightarrow> bool"
  chr_isdigit :: "nat \<Rightarrow> bool"
  int_of_str :: "pystr \<Rightarrow> int option"
  to_datetime :: "pystr \<Rightarrow> parsed"

subsection \<open>String primitives\<close>

definition py_isspace :: "nat \<Rightarrow> bool" where
  "py_isspace c \<longleftrightarrow>
     (9 \<le> c \<and> c \<le> 13) \<or> (28 \<le> c \<and> c \<le> 32) \<or> c = 133 \<or> c = 160 \<or> c = 5760 \<or>
     (8192 \<le> c \<and> c \<le> 8202) \<or> c = 8232 \<or> c = 8233 \<or> c = 8239 \<or> c = 8287 \<or> c = 12288"

definition py_strip :: "pystr \<Rightarrow> pystr" where
  "py_strip s = rev (dropWhile py_isspace (rev (dropWhile py_isspace s)))"

definition starts_with :: "pystr \<Rightarrow> pystr \<Rightarrow> bool" where
  "starts_with s sub \<longleftrightarrow> take (length sub) s = sub"

fun py_contains :: "pystr \<Rightarrow> pystr \<Rightarrow> bool" where
  "py_contains sub [] = (sub = [])"
| "py_contains sub (c # cs) = (starts_with (c # cs) sub \<or> py_contains sub cs)"

definition py_endswith :: "pystr \<Rightarrow> pystr \<Rightarrow> bool" where
  "py_endswith s suffix \<longleftrightarrow> length suffix \<le> length s \<and> drop (length s - length suffix) s = suffix"

fun py_join :: "pystr \<Rightarrow> pystr list \<Rightarrow> pystr" where
  "py_join sep [] = []"
| "py_join sep [x] = x"
| "py_join sep (x # y # ys) = x @ sep @ py_join sep (y # ys)"

text \<open>
  The scripts test \<open>s.lower() in ["nan", "none", "null", "nat"]\<close>. No character
  outside A-Z has a lower-case form made of the letters of these words, so the test is
  decided by lowering A-Z alone.
\<close>

definition ascii_lower :: "pystr \<Rightarrow> pystr" where
  "ascii_lower s = map (\<lambda>c. if 65 \<le> c \<and> c \<le> 90 then c + 32 else c) s"

definition null_words :: "pystr list" where
  "null_words = [[110, 97, 110], [110, 111, 110, 101], [110, 117, 108, 108], [110, 97, 116]]"

fun dec_digits :: "nat \<Rightarrow> pystr" where
  "dec_digits n = (if n < 10 then [48 + n] else dec_digits (n div 10) @ [48 + n mod 10])"

declare dec_digits.simps [simp del]

definition str_of_int :: "int \<Rightarrow> pystr" where
  "str_of_int i = (if i < 0 then 45 # dec_digits (nat (- i)) else dec_digits (nat i))"

definition py_str :: "cell \<Rightarrow> pystr" where
  "py_str v = (case v of
      NaN \<Rightarrow> [110, 97, 110]
    | Str s \<Rightarrow> s
    | IntV i \<Rightarrow> str_of_int i
    | FloatV x s \<Rightarrow> s
    | DateV y m d s \<Rightarrow> s)"

definition isna :: "cell \<Rightarrow> bool" where
  "isna v \<longleftrightarrow> v = NaN"

text \<open>\<open>int(val)\<close> of a float rounds towards zero.\<close>

definition trunc_rat :: "rat \<Rightarrow> int" where
  "trunc_rat x = (if 0 \<le> x then \<lfloor>x\<rfloor> else \<lceil>x\<rceil>)"

section \<open>Tables\<close>

text \<open>
  A data frame: the column labels in order, and the rows in order, each row giving the
  cell under a label. A label without a cell reads as \<open>NaN\<close>.
\<close>

type_synonym row = "pystr \<Rightarrow> cell option"

record table =
  tbl_columns :: "pystr list"
  tbl_rows :: "row list"

definition cell_of :: "row \<Rightarrow> pystr \<Rightarrow> cell" where
  "cell_of r c = (case r c of None \<Rightarrow> NaN | Some v \<Rightarrow> v)"

section \<open>Step 8: reflecting the mapping table into the registry\<close>

definition FIXED_WHOLESALER_NAME :: pystr where
  "FIXED_WHOLESALER_NAME = [12450, 12473, 12467]"

definition COL_WHOLESALER_ID :: pystr where
  "COL_WHOLESALER_ID = [21368, 20596, 26045, 35373, 73, 68]"

definition COL_WHOLESALER_NAME :: pystr where
  "COL_WHOLESALER_NAME = [21368, 26989, 32773, 21517]"

definition NEW_COL_NAME :: pystr where
  "NEW_COL_NAME = COL_WHOLESALER_ID"

definition uid_patterns :: "pystr list" where
  "uid_patterns =
     [[33258, 31038, 85, 73, 68], [26045, 35373, 85, 73, 68], [85, 73, 68],
      [33258, 31038, 73, 68], [21205, 29289, 30149, 38498, 85, 73, 68]]"

definition UID_MARKER :: pystr where
  "UID_MARKER = [85, 73, 68]"

fun find_uid_column :: "pylib \<Rightarrow> pystr list \<Rightarrow> pystr option" where
  "find_uid_column L [] = None"
| "find_uid_column L (col # cols) =
     (let col_str = py_strip col in
      if col_str \<in> set uid_patterns then Some col
      else if py_contains UID_MARKER (str_upper L col_str) then Some col
      else find_uid_column L cols)"

definition clean_value :: "cell \<Rightarrow> pystr" where
  "clean_value val =
     (if isna val then []
      else let val_str = py_strip (py_str val) in
           if ascii_lower val_str \<in> set null_words then [] else val_str)"

definition clean_id :: "cell \<Rightarrow> pystr" where
  "clean_id val =
     (if isna val then []
      else case val of
        FloatV x s \<Rightarrow> (if x = of_int (trunc_rat x) then str_of_int (trunc_rat x) else s)
      | _ \<Rightarrow>
         (let val_str = py_strip (py_str val) in
          if ascii_lower val_str \<in> set ([] # null_words) then []
          else if py_endswith val_str [46, 48] then take (length val_str - 2) val_str
          else val_str))"

text \<open>
  \<open>groupby(key)[col].apply(lambda x: ", ".join(sorted(set(x))))\<close>: one row for each
  distinct key, holding the distinct values of the key's rows, sorted and joined.
\<close>

definition groupby_join :: "(pystr \<times> pystr) list \<Rightarrow> (pystr \<times> pystr) list" where
  "groupby_join kvs =
     map (\<lambda>k. (k, py_join [44, 32] (sort (remdups (map snd (filter (\<lambda>kv. fst kv = k) kvs))))))
         (sort (remdups (map fst kvs)))"

text \<open>
  \<open>pd.merge(left, right, on=key, how="left")\<close> with a right frame of one value
  column: every left row, in order, once for each right row with an equal key, and once
  with a missing value when there is none. The keys of the right frame are strings.
\<close>

definition merge_left :: "pystr \<Rightarrow> pystr \<Rightarrow> row list \<Rightarrow> (pystr \<times> pystr) list \<Rightarrow> row list" where
  "merge_left key new_col left right =
     concat (map (\<lambda>r.
        case filter (\<lambda>kv. cell_of r key = Str (fst kv)) right of
          [] \<Rightarrow> [r(new_col \<mapsto> NaN)]
        | ms \<Rightarrow> map (\<lambda>kv. r(new_col \<mapsto> Str (snd kv))) ms) left)"

definition fillna_empty :: "pystr \<Rightarrow> row \<Rightarrow> row" where
  "fillna_empty col r = (if cell_of r col = NaN then r(col \<mapsto> Str []) else r)"

text \<open>The mapping rows that step 8 uses: the wholesaler filter, when the column exists.\<close>

definition mapping_filtered :: "table \<Rightarrow> row list" where
  "mapping_filtered df_mapping =
     (if COL_WHOLESALER_NAME \<in> set (tbl_columns df_mapping)
      then filter (\<lambda>r. clean_value (cell_of r COL_WHOLESALER_NAME) = FIXED_WHOLESALER_NAME)
             (tbl_rows df_mapping)
      else tbl_rows df_mapping)"

text \<open>
  The cleaning of one filtered mapping row: the UID column is overwritten with its
  cleaned text, then the wholesaler-id column with its cleaned id, read from the row as
  it stands by then. The pair is the row's group key and value.
\<close>

definition clean_pair :: "pystr \<Rightarrow> row \<Rightarrow> pystr \<times> pystr" where
  "clean_pair mapping_uid_col r =
     (let r1 = r(mapping_uid_col \<mapsto> Str (clean_value (cell_of r mapping_uid_col)));
          r2 = r1(COL_WHOLESALER_ID \<mapsto> Str (clean_id (cell_of r1 COL_WHOLESALER_ID)))
      in (py_str (cell_of r2 mapping_uid_col), py_str (cell_of r2 COL_WHOLESALER_ID)))"

definition map_clean :: "pystr \<Rightarrow> row list \<Rightarrow> (pystr \<times> pystr) list" where
  "map_clean mapping_uid_col rs =
     filter (\<lambda>kv. fst kv \<noteq> [] \<and> snd kv \<noteq> []) (map (clean_pair mapping_uid_col) rs)"

text \<open>
  The whole step. \<open>None\<close> is every run that ends without writing the registry: a
  missing UID column, a missing wholesaler-id column, a merge key that is not a column
  of the registry (\<open>pd.merge\<close> raises), a changed row count.
\<close>

definition step8_reflect_id_to_master :: "pylib \<Rightarrow> table \<Rightarrow> table \<Rightarrow> table option" where
  "step8_reflect_id_to_master L df_master df_mapping =
     (let master_count = length (tbl_rows df_master) in
      case find_uid_column L (tbl_columns df_master) of
        None \<Rightarrow> None
      | Some master_uid_col \<Rightarrow>
      (case find_uid_column L (tbl_columns df_mapping) of
        None \<Rightarrow> None
      | Some mapping_uid_col \<Rightarrow>
         if COL_WHOLESALER_ID \<notin> set (tbl_columns df_mapping) then None
         else
           let df_map_clean = map_clean mapping_uid_col (mapping_filtered df_mapping);
               df_grouped = groupby_join df_map_clean;
               master_cols = filter (\<lambda>c. c \<noteq> NEW_COL_NAME) (tbl_columns df_master);
               master_rows = map (\<lambda>r. r(NEW_COL_NAME := None)) (tbl_rows df_master)
           in if master_uid_col \<notin> set master_cols then None
              else
                let df_merged = map (fillna_empty NEW_COL_NAME)
                                  (merge_left master_uid_col NEW_COL_NAME master_rows df_grouped)
                in if length df_merged \<noteq> master_count then None
                   else Some \<lparr>tbl_columns = master_cols @ [NEW_COL_NAME], tbl_rows = df_merged\<rparr>))"

text \<open>The registry file after the run: rewritten on success, untouched otherwise.\<close>

definition registry_after :: "pylib \<Rightarrow> table \<Rightarrow> table \<Rightarrow> table" where
  "registry_after L df_master df_mapping =
     (case step8_reflect_id_to_master L df_master df_mapping of
        None \<Rightarrow> df_master
      | Some df_merged \<Rightarrow> df_merged)"

text \<open>
  A mapping row qualifies for a registry row when it passes the wholesaler filter, its
  cleaned UID and cleaned wholesaler id are not empty, and its cleaned UID is the
  registry row's UID.
\<close>

definition qualifies :: "table \<Rightarrow> pystr \<Rightarrow> cell \<Rightarrow> row \<Rightarrow> bool" where
  "qualifies df_mapping mapping_uid_col uid q \<longleftrightarrow>
     (COL_WHOLESALER_NAME \<in> set (tbl_columns df_mapping) \<longrightarrow>
        clean_value (cell_of q COL_WHOLESALER_NAME) = FIXED_WHOLESALER_NAME) \<and>
     fst (clean_pair mapping_uid_col q) \<noteq> [] \<and>
     snd (clean_pair mapping_uid_col q) \<noteq> [] \<and>
     uid = Str (fst (clean_pair mapping_uid_col q))"

text \<open>The text written for a UID cell: the distinct ids of its group, sorted and joined.\<close>

definition ids_for :: "cell \<Rightarrow> (pystr \<times> pystr) list \<Rightarrow> pystr" where
  "ids_for c kvs = py_join [44, 32] (sort (remdups (map snd (filter (\<lambda>kv. c = Str (fst kv)) kvs))))"

section \<open>Step 7: merging the mapping data\<close>

definition COL_UID :: pystr where
  "COL_UID = [33258, 31038, 85, 73, 68]"

definition COL_NAME_CHECK :: pystr where
  "COL_NAME_CHECK = [26045, 35373, 21517, 40, 30906, 35469, 29992, 41]"

definition COL_START_DATE :: pystr where
  "COL_START_DATE = [36969, 29992, 38283, 22987, 26085]"

definition COL_CUSTOMER_CODE :: pystr where
  "COL_CUSTOMER_CODE = [24471, 24847, 20808, 12467, 12540, 12489]"

definition COL_CUSTOMER_NAME :: pystr where
  "COL_CUSTOMER_NAME = [24471, 24847, 20808, 21517, 31216]"

definition COL_WHOLESALER_SIDE_NAME :: pystr where
  "COL_WHOLESALER_SIDE_NAME = [21368, 20596, 21517, 31216, 40, 21442, 32771, 41]"

definition COL_FACILITY_NAME :: pystr where
  "COL_FACILITY_NAME = [21205, 29289, 30149, 38498, 26045, 35373, 21517]"

definition FINAL_COLUMNS :: "pystr list" where
  "FINAL_COLUMNS = [COL_UID, COL_NAME_CHECK, COL_WHOLESALER_NAME, COL_WHOLESALER_ID, COL_START_DATE]"

text \<open>
  \<open>find_uid_column\<close> of step 7 is, word for word, the function of step 8 above.
  \<open>standardize_columns\<close> has its own scan, without \<open>strip\<close>.
\<close>

fun std_uid_column :: "pylib \<Rightarrow> pystr list \<Rightarrow> pystr option" where
  "std_uid_column L [] = None"
| "std_uid_column L (col # cols) =
     (if col \<in> set uid_patterns \<or> py_contains UID_MARKER (str_upper L col) then Some col
      else std_uid_column L cols)"

fun first_present :: "pystr list \<Rightarrow> pystr list \<Rightarrow> pystr option" where
  "first_present [] columns = None"
| "first_present (col # cols) columns =
     (if col \<in> set columns then Some col else first_present cols columns)"

text \<open>\<open>row.get(key, default)\<close> on a row of a frame with the given columns.\<close>

definition row_get :: "pystr list \<Rightarrow> row \<Rightarrow> pystr \<Rightarrow> cell \<Rightarrow> cell" where
  "row_get columns r key dflt = (if key \<in> set columns then cell_of r key else dflt)"

definition py_or :: "pystr \<Rightarrow> pystr \<Rightarrow> pystr" where
  "py_or a b = (if a = [] then b else a)"

definition standardize_row :: "pystr list \<Rightarrow> pystr \<Rightarrow> pystr option \<Rightarrow> pystr option \<Rightarrow> row \<Rightarrow> row" where
  "standardize_row columns uid_col wholesaler_id_col name_col r =
     [COL_UID \<mapsto> Str (clean_value (cell_of r uid_col)),
      COL_NAME_CHECK \<mapsto> Str (case name_col of None \<Rightarrow> [] | Some c \<Rightarrow> clean_value (cell_of r c)),
      COL_WHOLESALER_NAME \<mapsto>
        Str (py_or (clean_value (row_get columns r COL_WHOLESALER_NAME (Str FIXED_WHOLESALER_NAME)))
               FIXED_WHOLESALER_NAME),
      COL_WHOLESALER_ID \<mapsto>
        Str (case wholesaler_id_col of None \<Rightarrow> [] | Some c \<Rightarrow> clean_value (cell_of r c)),
      COL_START_DATE \<mapsto> Str (clean_value (row_get columns r COL_START_DATE (Str [])))]"

text \<open>
  \<open>standardize_columns\<close>: the rows with a non-empty cleaned UID, rebuilt over the
  final columns. \<open>None\<close> is the exception raised when the UID label stands over two
  columns (the row then yields a series, and \<open>clean_value\<close> cannot test it).
\<close>

definition standardize_columns :: "pylib \<Rightarrow> table \<Rightarrow> row list option" where
  "standardize_columns L df =
     (if tbl_rows df = [] then Some []
      else case std_uid_column L (tbl_columns df) of
        None \<Rightarrow> Some []
      | Some uid_col \<Rightarrow>
          if 1 < count_list (tbl_columns df) uid_col then None
          else
            let wholesaler_id_col = first_present [COL_WHOLESALER_ID, COL_CUSTOMER_CODE] (tbl_columns df);
                name_col = first_present [COL_NAME_CHECK, COL_CUSTOMER_NAME,
                                          COL_WHOLESALER_SIDE_NAME, COL_FACILITY_NAME] (tbl_columns df)
            in Some (map (standardize_row (tbl_columns df) uid_col wholesaler_id_col name_col)
                      (filter (\<lambda>r. clean_value (cell_of r uid_col) \<noteq> []) (tbl_rows df))))"

text \<open>
  The manually resolved rows of the unmatched list: the UID column is cleaned, the rows
  with a non-empty UID are kept, the column is renamed to the registry's UID label, and
  the rows are standardized.
\<close>

definition manual_filled :: "pystr \<Rightarrow> row list \<Rightarrow> row list" where
  "manual_filled uid_col rs =
     filter (\<lambda>r. cell_of r uid_col \<noteq> Str [])
       (map (\<lambda>r. r(uid_col \<mapsto> Str (clean_value (cell_of r uid_col)))) rs)"

definition rename_column :: "pystr \<Rightarrow> pystr \<Rightarrow> table \<Rightarrow> table" where
  "rename_column old new df =
     \<lparr>tbl_columns = map (\<lambda>c. if c = old then new else c) (tbl_columns df),
      tbl_rows = map (\<lambda>r. if old = new then r else (r(old := None))(new := r old)) (tbl_rows df)\<rparr>"

definition step7_manual :: "pylib \<Rightarrow> table \<Rightarrow> row list option" where
  "step7_manual L df_unmatched =
     (case find_uid_column L (tbl_columns df_unmatched) of
        None \<Rightarrow> Some []
      | Some uid_col \<Rightarrow>
          let df_manual = manual_filled uid_col (tbl_rows df_unmatched) in
          if df_manual = [] then Some []
          else standardize_columns L
                 (rename_column uid_col COL_UID
                    \<lparr>tbl_columns = tbl_columns df_unmatched, tbl_rows = df_manual\<rparr>))"

text \<open>
  \<open>drop_duplicates(subset=[...], keep="last")\<close>: a row stays when no later row has
  the same key. Keys compare as Python values do: missing values are equal to each
  other, an int equals the float of the same value.
\<close>

datatype cell_key = KNaN | KStr pystr | KNum rat | KDate pystr

definition key_of_cell :: "cell \<Rightarrow> cell_key" where
  "key_of_cell v = (case v of
      NaN \<Rightarrow> KNaN
    | Str s \<Rightarrow> KStr s
    | IntV i \<Rightarrow> KNum (of_int i)
    | FloatV x s \<Rightarrow> KNum x
    | DateV y m d s \<Rightarrow> KDate s)"

definition pair_key :: "row \<Rightarrow> cell_key \<times> cell_key" where
  "pair_key r = (key_of_cell (cell_of r COL_UID), key_of_cell (cell_of r COL_WHOLESALER_ID))"

fun drop_duplicates_last :: "('a \<Rightarrow> 'k) \<Rightarrow> 'a list \<Rightarrow> 'a list" where
  "drop_duplicates_last key [] = []"
| "drop_duplicates_last key (x # xs) =
     (if key x \<in> key ` set xs then drop_duplicates_last key xs
      else x # drop_duplicates_last key xs)"

definition clean_wholesaler_id :: "row \<Rightarrow> row" where
  "clean_wholesaler_id r = r(COL_WHOLESALER_ID \<mapsto> Str (clean_value (cell_of r COL_WHOLESALER_ID)))"

text \<open>
  Sections 3 and 4 of \<open>step7_merge_final\<close>, on the standardized automatic rows, the
  standardized manual rows and the mapping table on disk (\<open>None\<close> when the file does
  not exist). The result is the table written; \<open>None\<close> is the run that stops with a
  warning because there is no new row, and writes nothing.
\<close>

definition merge_columns :: "table option \<Rightarrow> pystr list" where
  "merge_columns df_existing =
     (case df_existing of
        None \<Rightarrow> FINAL_COLUMNS
      | Some e \<Rightarrow> tbl_columns e @ filter (\<lambda>c. c \<notin> set (tbl_columns e)) FINAL_COLUMNS)"

definition existing_rows :: "table option \<Rightarrow> row list" where
  "existing_rows df_existing = (case df_existing of None \<Rightarrow> [] | Some e \<Rightarrow> tbl_rows e)"

definition merge_final :: "row list \<Rightarrow> row list \<Rightarrow> table option \<Rightarrow> table option" where
  "merge_final df_candidate_clean df_manual_clean df_existing =
     (let df_new_data = df_candidate_clean @ df_manual_clean in
      if df_new_data = [] then None
      else
        let df_merged = drop_duplicates_last pair_key (existing_rows df_existing @ df_new_data);
            df_cleaned = map clean_wholesaler_id df_merged
        in Some \<lparr>tbl_columns = merge_columns df_existing,
                 tbl_rows = filter (\<lambda>r. cell_of r COL_WHOLESALER_ID \<noteq> Str []) df_cleaned\<rparr>)"

text \<open>The mapping table on disk after the run.\<close>

definition mapping_after :: "row list \<Rightarrow> row list \<Rightarrow> table option \<Rightarrow> table option" where
  "mapping_after df_candidate_clean df_manual_clean df_existing =
     (case merge_final df_candidate_clean df_manual_clean df_existing of
        None \<Rightarrow> df_existing
      | Some t \<Rightarrow> Some t)"

text \<open>
  The whole of \<open>step7_merge_final\<close>: each input file may be missing. \<open>None\<close> is a
  run that writes nothing (no new row, or an exception).
\<close>

definition step7_merge_final :: "pylib \<Rightarrow> table option \<Rightarrow> table option \<Rightarrow> table option \<Rightarrow> table option" where
  "step7_merge_final L candidate unmatched df_existing =
     (case (case candidate of None \<Rightarrow> Some [] | Some c \<Rightarrow> standardize_columns L c) of
        None \<Rightarrow> None
      | Some df_candidate_clean \<Rightarrow>
        (case (case unmatched of None \<Rightarrow> Some [] | Some u \<Rightarrow> step7_manual L u) of
           None \<Rightarrow> None
         | Some df_manual_clean \<Rightarrow> merge_final df_candidate_clean df_manual_clean df_existing))"

text \<open>
  Step 3, the earlier merge script, looks for the UID column of the unmatched list by
  three markers, without a list of aliases.
\<close>

fun step3_uid_column :: "pystr list \<Rightarrow> pystr option" where
  "step3_uid_column [] = None"
| "step3_uid_column (col # cols) =
     (if py_contains UID_MARKER col \<or> py_contains [33258, 31038] col \<or> py_contains [26045, 35373] col
      then Some col else step3_uid_column cols)"

section \<open>Text and contact normalizers\<close>

subsection \<open>Names and addresses\<close>

text \<open>\<open>text.replace(title, "")\<close>: every occurrence, from left to right, without overlap.\<close>

function remove_all :: "pystr \<Rightarrow> pystr \<Rightarrow> pystr" where
  "remove_all sub [] = []"
| "remove_all sub (c # cs) =
     (if sub \<noteq> [] \<and> starts_with (c # cs) sub
      then remove_all sub (drop (length sub) (c # cs))
      else c # remove_all sub cs)"
  by pat_completeness auto
termination
  by (relation "measure (\<lambda>(sub, s). length s)") (auto simp: neq_Nil_conv)

fun strip_titles :: "pystr list \<Rightarrow> pystr \<Rightarrow> pystr" where
  "strip_titles [] text = text"
| "strip_titles (title # titles) text = strip_titles titles (remove_all title text)"

definition kanji_num :: "nat \<Rightarrow> nat" where
  "kanji_num c =
     (if c = 19968 then 49 else if c = 20108 then 50 else if c = 19977 then 51
      else if c = 22235 then 52 else if c = 20116 then 53 else if c = 20845 then 54
      else if c = 19971 then 55 else if c = 20843 then 56 else if c = 20061 then 57
      else if c = 12295 then 48 else c)"

definition translate_kanji :: "pystr \<Rightarrow> pystr" where
  "translate_kanji text = map kanji_num text"

text \<open>The dashes of the character classes: hyphen-minus, U+2010, U+FF0D, U+30FC, U+2015.\<close>

definition is_dash :: "nat \<Rightarrow> bool" where
  "is_dash c \<longleftrightarrow> c = 45 \<or> c = 8208 \<or> c = 65293 \<or> c = 12540 \<or> c = 8213"

text \<open>The rebuild script: titles as regular expressions, each matching its literal text.\<close>

definition CORP_TITLES_rebuild :: "pystr list" where
  "CORP_TITLES_rebuild =
     [[26666, 24335, 20250, 31038], [26377, 38480, 20250, 31038], [21512, 21516, 20250, 31038],
      [19968, 33324, 31038, 22243, 27861, 20154], [20844, 30410, 31038, 22243, 27861, 20154],
      [21307, 30274, 27861, 20154], [40, 26666, 41], [40, 26377, 41]]"

definition normalize_text_rebuild :: "pylib \<Rightarrow> cell \<Rightarrow> pystr" where
  "normalize_text_rebuild L text =
     (if isna text then []
      else
        let t1 = zen_to_han_nokana L (py_str text);
            t2 = han_to_zen_kana L t1;
            t3 = strip_titles CORP_TITLES_rebuild t2;
            t4 = translate_kanji t3;
            t5 = filter (\<lambda>c. \<not> (py_isspace c \<or> is_dash c)) t4
        in py_strip t5)"

text \<open>Step 2.\<close>

definition CORP_TITLES_step2 :: "pystr list" where
  "CORP_TITLES_step2 =
     [[26666, 24335, 20250, 31038], [26377, 38480, 20250, 31038], [21512, 21516, 20250, 31038],
      [21307, 30274, 27861, 20154], [31038, 22243, 27861, 20154], [40, 26666, 41], [40, 26377, 41]]"

definition is_unit_step2 :: "nat \<Rightarrow> bool" where
  "is_unit_step2 c \<longleftrightarrow> c = 19969 \<or> c = 30446 \<or> c = 30058 \<or> c = 22320 \<or> c = 21495"

definition normalize_text_step2 :: "pylib \<Rightarrow> cell \<Rightarrow> pystr" where
  "normalize_text_step2 L text =
     (if isna text then []
      else
        let t1 = zen_to_han_nokana L (py_str text);
            t2 = han_to_zen_kana L t1;
            t3 = translate_kanji t2;
            t4 = strip_titles CORP_TITLES_step2 t3
        in filter (\<lambda>c. \<not> (py_isspace c \<or> is_dash c \<or> is_unit_step2 c)) t4)"

text \<open>Steps 5 and 6 (the same function in both scripts).\<close>

definition CORP_TITLES :: "pystr list" where
  "CORP_TITLES =
     [[26666, 24335, 20250, 31038], [26377, 38480, 20250, 31038], [21512, 21516, 20250, 31038],
      [21512, 36039, 20250, 31038], [21512, 21517, 20250, 31038],
      [21307, 30274, 27861, 20154], [21307, 30274, 27861, 20154, 31038, 22243],
      [21307, 30274, 27861, 20154, 36001, 22243],
      [31038, 22243, 27861, 20154], [36001, 22243, 27861, 20154],
      [19968, 33324, 31038, 22243, 27861, 20154], [19968, 33324, 36001, 22243, 27861, 20154],
      [20844, 30410, 31038, 22243, 27861, 20154], [20844, 30410, 36001, 22243, 27861, 20154],
      [31038, 20250, 31119, 31049, 27861, 20154], [23398, 26657, 27861, 20154],
      [23447, 25945, 27861, 20154],
      [78, 80, 79, 27861, 20154], [29305, 23450, 38750, 21942, 21033, 27963, 21205, 27861, 20154],
      [40, 26666, 41], [40, 26377, 41], [65288, 26666, 65289], [65288, 26377, 65289]]"

definition is_unit :: "nat \<Rightarrow> bool" where
  "is_unit c \<longleftrightarrow> is_unit_step2 c \<or> c = 12499 \<or> c = 12523 \<or> c = 38542 \<or> c = 70 \<or>
                  c = 26847 \<or> c = 23460"

definition normalize_text_for_matching :: "pylib \<Rightarrow> cell \<Rightarrow> pystr" where
  "normalize_text_for_matching L text =
     (if isna text then []
      else
        let t1 = zen_to_han_nokana L (py_str text);
            t2 = han_to_zen_kana L t1;
            t3 = translate_kanji t2;
            t4 = strip_titles CORP_TITLES t3;
            t5 = filter (\<lambda>c. \<not> (py_isspace c \<or> is_dash c \<or> is_unit c)) t4
        in str_lower L t5)"

subsection \<open>Phone numbers\<close>

text \<open>Steps 2 and 6: the digits only.\<close>

definition normalize_phone :: "pylib \<Rightarrow> cell \<Rightarrow> pystr" where
  "normalize_phone L phone =
     (if isna phone then []
      else filter (re_digit L) (zen_to_han L (py_str phone)))"

text \<open>Step 5: the dash glyphs unified, for display.\<close>

definition normalize_phone_step5 :: "pylib \<Rightarrow> cell \<Rightarrow> pystr" where
  "normalize_phone_step5 L val =
     (if isna val then []
      else
        let v = py_strip (py_str val) in
        if ascii_lower v \<in> set ([110, 97, 110] # [110, 111, 110, 101] # [110, 117, 108, 108] # [[]]) then []
        else map (\<lambda>c. if c = 12540 \<or> c = 65293 \<or> c = 8213 \<or> c = 8208 \<or> c = 8211 \<or> c = 8212
                        then 45 else c)
               (zen_to_han L v))"

subsection \<open>Postal codes\<close>

definition zfill7 :: "pystr \<Rightarrow> pystr" where
  "zfill7 s = replicate (7 - length s) 48 @ s"

text \<open>
  The text a postal value starts from: \<open>str(int(val))\<close> for a number, the stripped
  \<open>str(val)\<close> otherwise.
\<close>

definition postal_text :: "cell \<Rightarrow> pystr" where
  "postal_text val = (case val of
      IntV i \<Rightarrow> str_of_int i
    | FloatV x s \<Rightarrow> str_of_int (trunc_rat x)
    | _ \<Rightarrow> py_strip (py_str val))"

text \<open>The text after the width conversion, with the postal mark removed.\<close>

definition postal_unified :: "pylib \<Rightarrow> cell \<Rightarrow> pystr" where
  "postal_unified L val = py_strip (filter (\<lambda>c. c \<noteq> 12306) (zen_to_han L (postal_text val)))"

text \<open>Step 1 and the rebuild script (the same function in both).\<close>

definition normalize_postal_code_step1 :: "pylib \<Rightarrow> cell \<Rightarrow> pystr" where
  "normalize_postal_code_step1 L val =
     (if isna val then []
      else if ascii_lower (postal_text val) \<in> set ([] # null_words) then []
      else
        let v = postal_unified L val;
            digits_only = filter (re_digit L) v;
            digits_only = (if length digits_only \<le> 6 then zfill7 digits_only else digits_only)
        in if length digits_only = 7 then take 3 digits_only @ [45] @ drop 3 digits_only
           else v)"

text \<open>Step 5.\<close>

definition normalize_postal_code :: "pylib \<Rightarrow> cell \<Rightarrow> pystr" where
  "normalize_postal_code L val =
     (if isna val then []
      else if ascii_lower (postal_text val) \<in> set ([] # null_words) then []
      else
        let v = postal_unified L val;
            digits_only = filter (re_digit L) v;
            digits_only = (if length digits_only \<le> 6 \<and> 1 \<le> length digits_only
                           then zfill7 digits_only else digits_only)
        in if length digits_only = 7 then take 3 digits_only @ [45] @ drop 3 digits_only
           else v)"

text \<open>The digits of a postal value, and the values that count as absent.\<close>

definition postal_digits :: "pylib \<Rightarrow> cell \<Rightarrow> pystr" where
  "postal_digits L val = filter (re_digit L) (postal_unified L val)"

definition postal_null :: "cell \<Rightarrow> bool" where
  "postal_null val \<longleftrightarrow> isna val \<or> ascii_lower (postal_text val) \<in> set ([] # null_words)"

definition hyphenate :: "pystr \<Rightarrow> pystr" where
  "hyphenate d = take 3 d @ [45] @ drop 3 d"

text \<open>
  What the idempotence of the normalizers needs from the libraries. A text is
  width-unified when both width conversions leave it as it is. The width unification
  gives a width-unified text; a text made of characters of a width-unified text and of
  ASCII digits is width-unified; lower-casing keeps a text width-unified, is idempotent,
  maps the empty text to itself and creates none of the characters the normalizers
  translate or remove.
\<close>

definition has_title :: "pystr list \<Rightarrow> pystr \<Rightarrow> bool" where
  "has_title titles s \<longleftrightarrow> (\<exists>t \<in> set titles. py_contains t s)"

definition unified :: "pylib \<Rightarrow> pystr \<Rightarrow> bool" where
  "unified L s \<longleftrightarrow> zen_to_han_nokana L s = s \<and> han_to_zen_kana L s = s"

definition touched :: "nat \<Rightarrow> bool" where
  "touched c \<longleftrightarrow> kanji_num c \<noteq> c \<or> py_isspace c \<or> is_dash c \<or> is_unit c"

definition width_lib :: "pylib \<Rightarrow> bool" where
  "width_lib L \<longleftrightarrow>
     (\<forall>s. unified L (han_to_zen_kana L (zen_to_han_nokana L s))) \<and>
     (\<forall>s s'. unified L s \<and> set s' \<subseteq> set s \<union> {48..57} \<longrightarrow> unified L s') \<and>
     (\<forall>s. unified L s \<longrightarrow> unified L (str_lower L s)) \<and>
     (\<forall>s. str_lower L (str_lower L s) = str_lower L s) \<and>
     str_lower L [] = [] \<and>
     (\<forall>s c. c \<in> set (str_lower L s) \<and> touched c \<longrightarrow> c \<in> set s)"

section \<open>Dates\<close>

subsection \<open>The calendar\<close>

text \<open>
  \<open>pd.to_datetime(val, unit="D", origin="1899-12-30")\<close> is the day \<open>val\<close> days after
  30 December 1899 in the Gregorian calendar: serial 1 is 31 December 1899 and serial 2
  is 1 January 1900. The date is found by counting whole years from 1900, then whole
  months.
\<close>

definition is_leap :: "nat \<Rightarrow> bool" where
  "is_leap y \<longleftrightarrow> (y mod 4 = 0 \<and> y mod 100 \<noteq> 0) \<or> y mod 400 = 0"


definition month_lengths :: "nat \<Rightarrow> nat list" where
  "month_lengths y = [31, if is_leap y then 29 else 28, 31, 30, 31, 30, 31, 31, 30, 31, 30, 31]"








subsection \<open>The date parser of the rebuild script\<close>




subsection \<open>The date parser of step 4\<close>


text \<open>The shape YYYY/MM/DD: ten characters, digits but for the two slashes.\<close>

definition is_ascii_digit :: "nat \<Rightarrow> bool" where
  "is_ascii_digit c \<longleftrightarrow> 48 \<le> c \<and> c \<le> 57"




section \<open>Steps 6 and 2: matching external records against the registry\<close>

definition COL_ADDRESS :: pystr where
  "COL_ADDRESS = [20303, 25152]"

definition COL_PHONE :: pystr where
  "COL_PHONE = [38651, 35441, 30058, 21495]"

definition COL_TEL :: pystr where
  "COL_TEL = [84, 69, 76]"

definition COL_ADDR_FULL :: pystr where
  "COL_ADDR_FULL = [20303, 25152, 12501, 12523]"

definition COL_ADDR1 :: pystr where
  "COL_ADDR1 = [20303, 25152, 65297]"

definition COL_ADDR2 :: pystr where
  "COL_ADDR2 = [20303, 25152, 65298]"

definition COL_NORM_ADDR_KEY :: pystr where
  "COL_NORM_ADDR_KEY = [27491, 35215, 21270, 20303, 25152, 12461, 12540]"

definition COL_NORM_NAME_KEY :: pystr where
  "COL_NORM_NAME_KEY = [27491, 35215, 21270, 21517, 31216, 12461, 12540]"

definition COL_PRICE_DATE :: pystr where
  "COL_PRICE_DATE = [20385, 26684, 36969, 29992, 38283, 22987, 26085]"





text \<open>
  A registry row with its two lookup keys, \<open>MatchKey_Addr\<close> and \<open>MatchKey_Tel\<close>.
\<close>

record keyed_row =
  key_addr :: pystr
  key_tel :: pystr
  master_row :: row


subsection \<open>Step 6\<close>


definition master_keys_step6 :: "pylib \<Rightarrow> table \<Rightarrow> keyed_row list" where
  "master_keys_step6 L df_master =
     map (\<lambda>r. \<lparr>key_addr = normalize_text_for_matching L (cell_of r COL_ADDRESS) @
                          take 2 (normalize_text_for_matching L (cell_of r COL_FACILITY_NAME)),
               key_tel = (if COL_PHONE \<in> set (tbl_columns df_master)
                          then normalize_phone L (cell_of r COL_PHONE) else []),
               master_row = r\<rparr>) (tbl_rows df_master)"









subsection \<open>Step 2\<close>

definition master_keys_step2 :: "pylib \<Rightarrow> table \<Rightarrow> keyed_row list" where
  "master_keys_step2 L df_master =
     map (\<lambda>r. \<lparr>key_addr = normalize_text_step2 L (cell_of r COL_ADDRESS) @
                          take 2 (normalize_text_step2 L (cell_of r COL_FACILITY_NAME)),
               key_tel = normalize_phone L (cell_of r COL_PHONE),
               master_row = r\<rparr>) (tbl_rows df_master)"






section \<open>Concrete inputs\<close>

text \<open>
  An instance of the library parameters for concrete runs. It is exact on text made of
  ASCII characters and kanji: there the width conversions change nothing, the case
  mappings change A-Z and a-z only, and the digits are 0-9. Its date parser is exact on
  the texts used below: a day written YYYY/MM/DD, and texts that are no date.
\<close>

definition digits_value :: "pystr \<Rightarrow> nat" where
  "digits_value s = foldl (\<lambda>a c. 10 * a + (c - 48)) 0 s"

definition ascii_int :: "pystr \<Rightarrow> int option" where
  "ascii_int s = (if s \<noteq> [] \<and> list_all is_ascii_digit s then Some (int (digits_value s)) else None)"

text \<open>
  A parser for the texts YYYY/MM/DD and YYYY-MM-DD of an existing calendar day; it
  raises on every other text.
\<close>

definition simple_date_parser :: "pystr \<Rightarrow> parsed" where
  "simple_date_parser s =
     (if length s = 10 \<and> (s ! 4 = 47 \<or> s ! 4 = 45) \<and> s ! 7 = s ! 4 \<and>
         list_all is_ascii_digit (take 4 s) \<and> list_all is_ascii_digit (take 2 (drop 5 s)) \<and>
         list_all is_ascii_digit (drop 8 s)
      then
        let y = digits_value (take 4 s);
            m = digits_value (take 2 (drop 5 s));
            d = digits_value (drop 8 s)
        in if 1 \<le> m \<and> m \<le> 12 \<and> 1 \<le> d \<and> d \<le> month_lengths y ! (m - 1)
           then Timestamp (int y) m d else Raises
      else Raises)"

definition ascii_upper :: "pystr \<Rightarrow> pystr" where
  "ascii_upper s = map (\<lambda>c. if 97 \<le> c \<and> c \<le> 122 then c - 32 else c) s"

definition ascii_lib :: pylib where
  "ascii_lib = \<lparr>
     str_lower = ascii_lower,
     str_upper = ascii_upper,
     zen_to_han = (\<lambda>s. s),
     zen_to_han_nokana = (\<lambda>s. s),
     han_to_zen_kana = (\<lambda>s. s),
     re_digit = (\<lambda>c. 48 \<le> c \<and> c \<le> 57),
     chr_isdigit = (\<lambda>c. 48 \<le> c \<and> c \<le> 57),
     int_of_str = ascii_int,
     to_datetime = simple_date_parser\<rparr>"

definition demo_master :: table where
  "demo_master = \<lparr>tbl_columns = [[85, 73, 68]],
     tbl_rows = [[[85, 73, 68] \<mapsto> Str [65, 50]], [[85, 73, 68] \<mapsto> Str [66, 51]]]\<rparr>"

definition demo_mapping :: table where
  "demo_mapping = \<lparr>tbl_columns = [[85, 73, 68], COL_WHOLESALER_NAME, COL_WHOLESALER_ID],
     tbl_rows = [[[85, 73, 68] \<mapsto> Str [65, 50], COL_WHOLESALER_NAME \<mapsto> Str FIXED_WHOLESALER_NAME,
                  COL_WHOLESALER_ID \<mapsto> IntV 7],
                 [[85, 73, 68] \<mapsto> Str [65, 50], COL_WHOLESALER_NAME \<mapsto> Str [88],
                  COL_WHOLESALER_ID \<mapsto> IntV 9]]\<rparr>"

definition demo_mapping_other :: table where
  "demo_mapping_other = \<lparr>tbl_columns = [[85, 73, 68], COL_WHOLESALER_NAME, COL_WHOLESALER_ID],
     tbl_rows = [[[85, 73, 68] \<mapsto> Str [65, 50], COL_WHOLESALER_NAME \<mapsto> Str FIXED_WHOLESALER_NAME,
                  COL_WHOLESALER_ID \<mapsto> IntV 7]]\<rparr>"

definition demo_unmatched :: table where
  "demo_unmatched = \<lparr>tbl_columns = [COL_CUSTOMER_CODE, [85, 73, 68]],
     tbl_rows = [[COL_CUSTOMER_CODE \<mapsto> IntV 7, [85, 73, 68] \<mapsto> Str [65, 50]],
                 [COL_CUSTOMER_CODE \<mapsto> IntV 9, [85, 73, 68] \<mapsto> NaN]]\<rparr>"

definition demo_existing :: table where
  "demo_existing = \<lparr>tbl_columns = [COL_UID, COL_NAME_CHECK, COL_WHOLESALER_NAME, COL_START_DATE],
     tbl_rows = [[COL_UID \<mapsto> Str [65, 50], COL_NAME_CHECK \<mapsto> Str [78],
                  COL_WHOLESALER_NAME \<mapsto> Str FIXED_WHOLESALER_NAME, COL_START_DATE \<mapsto> NaN]]\<rparr>"

definition demo_new_row :: row where
  "demo_new_row = [COL_UID \<mapsto> Str [65, 50], COL_NAME_CHECK \<mapsto> Str [78],
                   COL_WHOLESALER_NAME \<mapsto> Str FIXED_WHOLESALER_NAME,
                   COL_WHOLESALER_ID \<mapsto> Str [55], COL_START_DATE \<mapsto> Str []]"

definition demo_old_row :: row where
  "demo_old_row = [COL_UID \<mapsto> Str [65, 50], COL_NAME_CHECK \<mapsto> Str [79],
                   COL_WHOLESALER_NAME \<mapsto> Str FIXED_WHOLESALER_NAME,
                   COL_WHOLESALER_ID \<mapsto> Str [55], COL_START_DATE \<mapsto> Str []]"


text \<open>A registry of one row and three external records, for the matching scripts.\<close>

definition demo_registry_row :: row where
  "demo_registry_row =
     [COL_UID \<mapsto> Str [65, 50],
      COL_ADDRESS \<mapsto> Str [49, 45, 50, 32, 109, 97, 105, 110],
      COL_FACILITY_NAME \<mapsto> Str [97, 111, 122, 111, 114, 97],
      COL_PHONE \<mapsto> Str [48, 51, 45, 49, 50, 51, 52, 45, 53, 54, 55, 56]]"

definition demo_registry :: table where
  "demo_registry = \<lparr>tbl_columns = [COL_UID, COL_ADDRESS, COL_FACILITY_NAME, COL_PHONE],
                     tbl_rows = [demo_registry_row]\<rparr>"






definition demo_keyed :: keyed_row where
  "demo_keyed = \<lparr>key_addr = [49, 50, 109, 97, 105, 110, 97, 111],
                  key_tel = [48, 51, 49, 50, 51, 52, 53, 54, 55, 56],
                  master_row = demo_registry_row\<rparr>"

section \<open>Properties of step 8\<close>

lemma groupby_join_keys_distinct: "distinct (map fst (groupby_join kvs))"
  by (simp add: groupby_join_def comp_def)

lemma find_by_filter:
  "find P xs = (case filter P xs of [] \<Rightarrow> None | x # _ \<Rightarrow> Some x)"
  by (induction xs) auto

lemma filter_key_distinct:
  "distinct (map fst g) \<Longrightarrow> length (filter (\<lambda>kv. c = Str (fst kv)) g) \<le> 1"
proof (induction g)
  case Nil
  then show ?case by simp
next
  case (Cons a g)
  have "c = Str (fst a) \<Longrightarrow> filter (\<lambda>kv. c = Str (fst kv)) g = []"
    using Cons.prems by (auto simp: filter_empty_conv)
  with Cons show ?case by auto
qed

lemma merge_left_map:
  assumes "distinct (map fst right)"
  shows "merge_left key new_col left right =
         map (\<lambda>r. r(new_col \<mapsto>
                (case find (\<lambda>kv. cell_of r key = Str (fst kv)) right of
                   None \<Rightarrow> NaN | Some kv \<Rightarrow> Str (snd kv)))) left"
proof -
  have one: "(case filter (\<lambda>kv. cell_of r key = Str (fst kv)) right of
          [] \<Rightarrow> [r(new_col \<mapsto> NaN)]
        | ms \<Rightarrow> map (\<lambda>kv. r(new_col \<mapsto> Str (snd kv))) ms) =
        [r(new_col \<mapsto> (case find (\<lambda>kv. cell_of r key = Str (fst kv)) right of
                   None \<Rightarrow> NaN | Some kv \<Rightarrow> Str (snd kv)))]" for r
    using filter_key_distinct [OF assms, of "cell_of r key"]
    by (cases "filter (\<lambda>kv. cell_of r key = Str (fst kv)) right")
       (auto simp: find_by_filter)
  show ?thesis
    unfolding merge_left_def one by (induction left) simp_all
qed

lemma find_eq_member: "k \<in> set xs \<Longrightarrow> find ((=) k) xs = Some k"
  by (induction xs) auto

lemma find_map_comp: "find P (map f xs) = map_option f (find (P \<circ> f) xs)"
  by (induction xs) auto

lemma groupby_join_find:
  "find (\<lambda>kv. c = Str (fst kv)) (groupby_join kvs) =
     (if \<exists>kv \<in> set kvs. c = Str (fst kv)
      then Some (py_str c, py_join [44, 32] (sort (remdups (map snd (filter (\<lambda>kv. c = Str (fst kv)) kvs)))))
      else None)"
proof (cases "\<exists>kv \<in> set kvs. c = Str (fst kv)")
  case False
  then have "find (\<lambda>kv. c = Str (fst kv)) (groupby_join kvs) = None"
    by (auto simp: find_None_iff groupby_join_def)
  with False show ?thesis by simp
next
  case True
  then obtain k where k: "c = Str k" "k \<in> fst ` set kvs" by auto
  have eqf: "filter (\<lambda>kv. c = Str (fst kv)) kvs = filter (\<lambda>kv. fst kv = k) kvs"
    using k by (auto intro: filter_cong)
  have "find (\<lambda>k'. c = Str k') (sort (remdups (map fst kvs))) = Some k"
    using k find_eq_member [of k "sort (remdups (map fst kvs))"] by auto
  then have "find (\<lambda>kv. c = Str (fst kv)) (groupby_join kvs)
      = Some (k, py_join [44, 32] (sort (remdups (map snd (filter (\<lambda>kv. fst kv = k) kvs)))))"
    unfolding groupby_join_def by (simp add: find_map_comp comp_def)
  with True k eqf show ?thesis by (simp add: py_str_def)
qed

lemma merged_cell:
  "fillna_empty new_col (r(new_col \<mapsto>
       (case find (\<lambda>kv. c = Str (fst kv)) (groupby_join kvs) of
                   None \<Rightarrow> NaN | Some kv \<Rightarrow> Str (snd kv))))
   = r(new_col \<mapsto> Str (ids_for c kvs))"
proof (cases "\<exists>kv \<in> set kvs. c = Str (fst kv)")
  case True
  then show ?thesis
    by (simp add: groupby_join_find fillna_empty_def cell_of_def ids_for_def)
next
  case False
  then have "filter (\<lambda>kv. c = Str (fst kv)) kvs = []"
    by (auto simp: filter_empty_conv)
  with False show ?thesis
    by (simp add: groupby_join_find fillna_empty_def cell_of_def ids_for_def)
qed

lemma step8_result:
  assumes "step8_reflect_id_to_master L df_master df_mapping = Some df_merged"
    and "find_uid_column L (tbl_columns df_master) = Some master_uid_col"
    and "find_uid_column L (tbl_columns df_mapping) = Some mapping_uid_col"
  shows "tbl_rows df_merged =
           map (\<lambda>r. r(NEW_COL_NAME \<mapsto>
                  Str (ids_for (cell_of r master_uid_col)
                         (map_clean mapping_uid_col (mapping_filtered df_mapping)))))
               (tbl_rows df_master)"
proof -
  have ne: "master_uid_col \<noteq> NEW_COL_NAME"
    using assms by (auto simp: step8_reflect_id_to_master_def Let_def split: if_splits)
  have c: "cell_of (r(NEW_COL_NAME := None)) master_uid_col = cell_of r master_uid_col" for r :: row
    using ne by (simp add: cell_of_def)
  have "tbl_rows df_merged =
      map (fillna_empty NEW_COL_NAME)
        (merge_left master_uid_col NEW_COL_NAME
           (map (\<lambda>r. r(NEW_COL_NAME := None)) (tbl_rows df_master))
           (groupby_join (map_clean mapping_uid_col (mapping_filtered df_mapping))))"
    using assms by (auto simp: step8_reflect_id_to_master_def Let_def split: if_splits)
  then show ?thesis
    by (simp add: merge_left_map groupby_join_keys_distinct comp_def merged_cell c)
qed

lemma find_uid_column_mem:
  "find_uid_column L cols = Some c \<Longrightarrow> c \<in> set cols"
  by (induction cols) (auto simp: Let_def split: if_splits)

lemma step8_succeeds:
  assumes "find_uid_column L (tbl_columns df_master) = Some master_uid_col"
    and "find_uid_column L (tbl_columns df_mapping) = Some mapping_uid_col"
    and "COL_WHOLESALER_ID \<in> set (tbl_columns df_mapping)"
    and "master_uid_col \<noteq> NEW_COL_NAME"
  shows "step8_reflect_id_to_master L df_master df_mapping \<noteq> None"
proof -
  have "master_uid_col \<in> set (tbl_columns df_master)"
    using assms(1) by (rule find_uid_column_mem)
  then show ?thesis
  using assms
  by (simp add: step8_reflect_id_to_master_def Let_def merge_left_map groupby_join_keys_distinct)
qed

lemma ids_for_no_match:
  "\<forall>kv \<in> set kvs. c \<noteq> Str (fst kv) \<Longrightarrow> ids_for c kvs = []"
proof -
  assume "\<forall>kv \<in> set kvs. c \<noteq> Str (fst kv)"
  then have "filter (\<lambda>kv. c = Str (fst kv)) kvs = []"
    by (auto simp: filter_empty_conv)
  then show ?thesis by (simp add: ids_for_def)
qed

lemma map_clean_qualifies:
  assumes "kv \<in> set (map_clean pu (mapping_filtered mp))" and "c = Str (fst kv)"
  shows "\<exists>q \<in> set (tbl_rows mp). qualifies mp pu c q"
proof -
  from assms(1) obtain q where q: "q \<in> set (mapping_filtered mp)" "kv = clean_pair pu q"
    "fst kv \<noteq> []" "snd kv \<noteq> []"
    by (auto simp: map_clean_def)
  from q(1) have "q \<in> set (tbl_rows mp)"
    and "COL_WHOLESALER_NAME \<in> set (tbl_columns mp) \<longrightarrow>
        clean_value (cell_of q COL_WHOLESALER_NAME) = FIXED_WHOLESALER_NAME"
     by (auto simp: mapping_filtered_def split: if_splits)
  with q assms(2) show ?thesis
    by (auto simp: qualifies_def)
qed

text \<open>
  Claim C1. The registry has as many rows after the reflection step as before it,
  whatever the two tables are. When the UID columns and the wholesaler-id column exist,
  the step does write the registry (the row-count check never fails); a registry row
  whose UID no qualifying mapping row carries gets the empty text in the wholesaler-id
  column, and with a mapping table of no rows every registry row gets it.
\<close>

theorem reflect_preserves_row_count:
  "length (tbl_rows (registry_after L df_master df_mapping)) = length (tbl_rows df_master) \<and>
   (\<forall>master_uid_col mapping_uid_col.
      find_uid_column L (tbl_columns df_master) = Some master_uid_col \<and>
      find_uid_column L (tbl_columns df_mapping) = Some mapping_uid_col \<and>
      COL_WHOLESALER_ID \<in> set (tbl_columns df_mapping) \<and>
      master_uid_col \<noteq> NEW_COL_NAME \<longrightarrow>
      (\<exists>df_merged.
         step8_reflect_id_to_master L df_master df_mapping = Some df_merged \<and>
         length (tbl_rows df_merged) = length (tbl_rows df_master) \<and>
         (\<forall>i < length (tbl_rows df_master).
            (\<forall>q \<in> set (tbl_rows df_mapping).
               \<not> qualifies df_mapping mapping_uid_col
                    (cell_of (tbl_rows df_master ! i) master_uid_col) q) \<longrightarrow>
            cell_of (tbl_rows df_merged ! i) NEW_COL_NAME = Str []) \<and>
         (tbl_rows df_mapping = [] \<longrightarrow>
            (\<forall>r \<in> set (tbl_rows df_merged). cell_of r NEW_COL_NAME = Str []))))"
proof (intro conjI allI impI)
  show "length (tbl_rows (registry_after L df_master df_mapping)) = length (tbl_rows df_master)"
    by (auto simp: registry_after_def step8_reflect_id_to_master_def Let_def
             split: option.splits if_splits)
next
  fix master_uid_col mapping_uid_col
  assume a: "find_uid_column L (tbl_columns df_master) = Some master_uid_col \<and>
      find_uid_column L (tbl_columns df_mapping) = Some mapping_uid_col \<and>
      COL_WHOLESALER_ID \<in> set (tbl_columns df_mapping) \<and>
      master_uid_col \<noteq> NEW_COL_NAME"
  then obtain df_merged where
    t: "step8_reflect_id_to_master L df_master df_mapping = Some df_merged"
    using step8_succeeds [of L df_master master_uid_col df_mapping mapping_uid_col] by auto
  let ?kvs = "map_clean mapping_uid_col (mapping_filtered df_mapping)"
  have rows: "tbl_rows df_merged =
           map (\<lambda>r. r(NEW_COL_NAME \<mapsto> Str (ids_for (cell_of r master_uid_col) ?kvs)))
               (tbl_rows df_master)"
    using step8_result [OF t] a by blast
  have len: "length (tbl_rows df_merged) = length (tbl_rows df_master)"
    by (simp add: rows)
  have unq: "cell_of (tbl_rows df_merged ! i) NEW_COL_NAME = Str []"
    if i: "i < length (tbl_rows df_master)"
      and nq: "\<forall>q \<in> set (tbl_rows df_mapping).
               \<not> qualifies df_mapping mapping_uid_col
                    (cell_of (tbl_rows df_master ! i) master_uid_col) q" for i
  proof -
    have "\<forall>kv \<in> set ?kvs. cell_of (tbl_rows df_master ! i) master_uid_col \<noteq> Str (fst kv)"
      using map_clean_qualifies [of _ mapping_uid_col df_mapping] nq by blast
    then have "ids_for (cell_of (tbl_rows df_master ! i) master_uid_col) ?kvs = []"
      by (rule ids_for_no_match)
    with i show ?thesis by (simp add: rows cell_of_def)
  qed
  have emp: "\<forall>r \<in> set (tbl_rows df_merged). cell_of r NEW_COL_NAME = Str []"
    if "tbl_rows df_mapping = []"
  proof -
    from that have "?kvs = []"
      by (simp add: mapping_filtered_def map_clean_def)
    then show ?thesis
      by (auto simp: rows cell_of_def ids_for_def)
  qed
  from t len unq emp
  show "\<exists>df_merged.
         step8_reflect_id_to_master L df_master df_mapping = Some df_merged \<and>
         length (tbl_rows df_merged) = length (tbl_rows df_master) \<and>
         (\<forall>i < length (tbl_rows df_master).
            (\<forall>q \<in> set (tbl_rows df_mapping).
               \<not> qualifies df_mapping mapping_uid_col
                    (cell_of (tbl_rows df_master ! i) master_uid_col) q) \<longrightarrow>
            cell_of (tbl_rows df_merged ! i) NEW_COL_NAME = Str []) \<and>
         (tbl_rows df_mapping = [] \<longrightarrow>
            (\<forall>r \<in> set (tbl_rows df_merged). cell_of r NEW_COL_NAME = Str []))"
    by blast
qed

lemma demo_find_master: "find_uid_column ascii_lib (tbl_columns demo_master) = Some [85, 73, 68]"
  by (simp add: demo_master_def py_strip_def py_isspace_def uid_patterns_def)

lemma demo_find_mapping: "find_uid_column ascii_lib (tbl_columns demo_mapping) = Some [85, 73, 68]"
  by (simp add: demo_mapping_def py_strip_def py_isspace_def uid_patterns_def)

lemma demo_not_qualifies:
  "\<forall>q \<in> set (tbl_rows demo_mapping).
      \<not> qualifies demo_mapping [85, 73, 68] (cell_of (tbl_rows demo_master ! 1) [85, 73, 68]) q"
  by (simp add: demo_mapping_def demo_master_def qualifies_def clean_pair_def Let_def cell_of_def
        clean_value_def isna_def py_str_def py_strip_def py_isspace_def ascii_lower_def null_words_def
        COL_WHOLESALER_ID_def COL_WHOLESALER_NAME_def)

theorem reflect_preserves_row_count_witness:
  "length (tbl_rows (registry_after ascii_lib demo_master demo_mapping)) = 2 \<and>
   cell_of (tbl_rows (registry_after ascii_lib demo_master demo_mapping) ! 1) NEW_COL_NAME = Str []"
proof -
  have h: "find_uid_column ascii_lib (tbl_columns demo_master) = Some [85, 73, 68] \<and>
      find_uid_column ascii_lib (tbl_columns demo_mapping) = Some [85, 73, 68] \<and>
      COL_WHOLESALER_ID \<in> set (tbl_columns demo_mapping) \<and>
      [85, 73, 68] \<noteq> NEW_COL_NAME"
    by (simp add: demo_find_master demo_find_mapping)
       (simp add: demo_mapping_def NEW_COL_NAME_def COL_WHOLESALER_ID_def)
  have l: "length (tbl_rows demo_master) = 2" "(1::nat) < 2"
    by (simp_all add: demo_master_def)
  from reflect_preserves_row_count [of ascii_lib demo_master demo_mapping] h
  obtain t where t: "step8_reflect_id_to_master ascii_lib demo_master demo_mapping = Some t"
     "length (tbl_rows t) = length (tbl_rows demo_master)" 
     "\<forall>i < length (tbl_rows demo_master).
            (\<forall>q \<in> set (tbl_rows demo_mapping).
               \<not> qualifies demo_mapping [85, 73, 68]
                    (cell_of (tbl_rows demo_master ! i)  [85, 73, 68]) q) \<longrightarrow>
            cell_of (tbl_rows t ! i) NEW_COL_NAME = Str []"
    by blast
  from t(3) l demo_not_qualifies have "cell_of (tbl_rows t ! 1) NEW_COL_NAME = Str []"
    by simp
  with t(1,2) l show ?thesis
    by (simp add: registry_after_def)
qed

lemma mapping_filtered_filter:
  "mapping_filtered mp =
     filter (\<lambda>q. COL_WHOLESALER_NAME \<in> set (tbl_columns mp) \<longrightarrow>
                 clean_value (cell_of q COL_WHOLESALER_NAME) = FIXED_WHOLESALER_NAME) (tbl_rows mp)"
  by (simp add: mapping_filtered_def)

lemma ids_for_qualifying:
  "ids_for c (map_clean pu (mapping_filtered mp)) =
     py_join [44, 32] (sort (remdups
       (map (\<lambda>q. snd (clean_pair pu q)) (filter (qualifies mp pu c) (tbl_rows mp)))))"
proof -
  have "map snd (filter (\<lambda>kv. c = Str (fst kv)) (map_clean pu (mapping_filtered mp))) =
        map (\<lambda>q. snd (clean_pair pu q)) (filter (qualifies mp pu c) (tbl_rows mp))"
  proof -
    have "filter (\<lambda>x. (fst (clean_pair pu x) \<noteq> [] \<and> snd (clean_pair pu x) \<noteq> []) \<and>
                      c = Str (fst (clean_pair pu x)) \<and>
                     (COL_WHOLESALER_NAME \<in> set (tbl_columns mp) \<longrightarrow>
                       clean_value (cell_of x COL_WHOLESALER_NAME) = FIXED_WHOLESALER_NAME))
            (tbl_rows mp) = filter (qualifies mp pu c) (tbl_rows mp)"
      by (rule filter_cong) (auto simp: qualifies_def)
    then show ?thesis
      unfolding map_clean_def mapping_filtered_filter
      by (simp add: filter_map comp_def conj_commute conj_left_commute)
  qed
  then show ?thesis by (simp add: ids_for_def)
qed

text \<open>
  Claim C10. After a successful reflection step the wholesaler-id cell of a registry row
  is the joined, sorted, duplicate-free list of the cleaned ids of exactly those mapping
  rows that carry the row's UID, have a non-empty cleaned id and, when the mapping table
  has a wholesaler-name column, have the fixed wholesaler as cleaned wholesaler name;
  without that column every mapping row counts. Rows of any other wholesaler have no
  effect: two mapping tables with the same columns and the same rows of the fixed
  wholesaler give the same result.
\<close>

theorem reflect_fixed_wholesaler_only:
  "(step8_reflect_id_to_master L df_master df_mapping = Some df_merged \<and>
    find_uid_column L (tbl_columns df_master) = Some master_uid_col \<and>
    find_uid_column L (tbl_columns df_mapping) = Some mapping_uid_col \<and>
    i < length (tbl_rows df_master) \<longrightarrow>
    cell_of (tbl_rows df_merged ! i) NEW_COL_NAME =
      Str (py_join [44, 32] (sort (remdups
        (map (\<lambda>q. snd (clean_pair mapping_uid_col q))
          (filter (\<lambda>q.
             (COL_WHOLESALER_NAME \<in> set (tbl_columns df_mapping) \<longrightarrow>
                clean_value (cell_of q COL_WHOLESALER_NAME) = FIXED_WHOLESALER_NAME) \<and>
             fst (clean_pair mapping_uid_col q) \<noteq> [] \<and>
             snd (clean_pair mapping_uid_col q) \<noteq> [] \<and>
             cell_of (tbl_rows df_master ! i) master_uid_col = Str (fst (clean_pair mapping_uid_col q)))
           (tbl_rows df_mapping))))))) \<and>
   (COL_WHOLESALER_NAME \<in> set (tbl_columns df_mapping) \<and>
    tbl_columns other_mapping = tbl_columns df_mapping \<and>
    filter (\<lambda>q. clean_value (cell_of q COL_WHOLESALER_NAME) = FIXED_WHOLESALER_NAME)
       (tbl_rows other_mapping) =
    filter (\<lambda>q. clean_value (cell_of q COL_WHOLESALER_NAME) = FIXED_WHOLESALER_NAME)
       (tbl_rows df_mapping) \<longrightarrow>
    step8_reflect_id_to_master L df_master other_mapping =
    step8_reflect_id_to_master L df_master df_mapping)"
proof (intro conjI impI)
  assume a: "step8_reflect_id_to_master L df_master df_mapping = Some df_merged \<and>
    find_uid_column L (tbl_columns df_master) = Some master_uid_col \<and>
    find_uid_column L (tbl_columns df_mapping) = Some mapping_uid_col \<and>
    i < length (tbl_rows df_master)"
  then have "tbl_rows df_merged =
           map (\<lambda>r. r(NEW_COL_NAME \<mapsto>
                  Str (ids_for (cell_of r master_uid_col)
                         (map_clean mapping_uid_col (mapping_filtered df_mapping)))))
               (tbl_rows df_master)"
    using step8_result by blast
  with a have c: "cell_of (tbl_rows df_merged ! i) NEW_COL_NAME =
      Str (ids_for (cell_of (tbl_rows df_master ! i) master_uid_col)
                         (map_clean mapping_uid_col (mapping_filtered df_mapping)))"
    by (simp add: cell_of_def)
  show "cell_of (tbl_rows df_merged ! i) NEW_COL_NAME =
      Str (py_join [44, 32] (sort (remdups
        (map (\<lambda>q. snd (clean_pair mapping_uid_col q))
          (filter (\<lambda>q.
             (COL_WHOLESALER_NAME \<in> set (tbl_columns df_mapping) \<longrightarrow>
                clean_value (cell_of q COL_WHOLESALER_NAME) = FIXED_WHOLESALER_NAME) \<and>
             fst (clean_pair mapping_uid_col q) \<noteq> [] \<and>
             snd (clean_pair mapping_uid_col q) \<noteq> [] \<and>
             cell_of (tbl_rows df_master ! i) master_uid_col = Str (fst (clean_pair mapping_uid_col q)))
           (tbl_rows df_mapping))))))"
  proof -
    have "filter (\<lambda>q.
             (COL_WHOLESALER_NAME \<in> set (tbl_columns df_mapping) \<longrightarrow>
                clean_value (cell_of q COL_WHOLESALER_NAME) = FIXED_WHOLESALER_NAME) \<and>
             fst (clean_pair mapping_uid_col q) \<noteq> [] \<and>
             snd (clean_pair mapping_uid_col q) \<noteq> [] \<and>
             cell_of (tbl_rows df_master ! i) master_uid_col = Str (fst (clean_pair mapping_uid_col q)))
           (tbl_rows df_mapping) =
          filter (qualifies df_mapping mapping_uid_col (cell_of (tbl_rows df_master ! i) master_uid_col))
           (tbl_rows df_mapping)"
      by (rule filter_cong) (auto simp: qualifies_def)
    then show ?thesis
      using c by (simp add: ids_for_qualifying)
  qed
next
  assume b: "COL_WHOLESALER_NAME \<in> set (tbl_columns df_mapping) \<and>
    tbl_columns other_mapping = tbl_columns df_mapping \<and>
    filter (\<lambda>q. clean_value (cell_of q COL_WHOLESALER_NAME) = FIXED_WHOLESALER_NAME)
       (tbl_rows other_mapping) =
    filter (\<lambda>q. clean_value (cell_of q COL_WHOLESALER_NAME) = FIXED_WHOLESALER_NAME)
       (tbl_rows df_mapping)"
  then have mf: "mapping_filtered other_mapping = mapping_filtered df_mapping"
    by (simp add: mapping_filtered_def)
  from b have cols: "tbl_columns other_mapping = tbl_columns df_mapping"
    by simp
  show "step8_reflect_id_to_master L df_master other_mapping =
    step8_reflect_id_to_master L df_master df_mapping"
    unfolding step8_reflect_id_to_master_def mf cols ..
qed

lemma dec_digits_small: "n < 10 \<Longrightarrow> dec_digits n = [48 + n]"
  by (simp add: dec_digits.simps)

theorem reflect_fixed_wholesaler_only_witness:
  "cell_of (tbl_rows (registry_after ascii_lib demo_master demo_mapping) ! 0) NEW_COL_NAME = Str [55] \<and>
   step8_reflect_id_to_master ascii_lib demo_master demo_mapping_other =
   step8_reflect_id_to_master ascii_lib demo_master demo_mapping"
proof -
  have ne: "[85, 73, 68] \<noteq> NEW_COL_NAME" "COL_WHOLESALER_ID \<in> set (tbl_columns demo_mapping)"
    by (simp_all add: demo_mapping_def NEW_COL_NAME_def COL_WHOLESALER_ID_def)
  obtain t where t: "step8_reflect_id_to_master ascii_lib demo_master demo_mapping = Some t"
    using step8_succeeds [OF demo_find_master demo_find_mapping ne(2) ne(1)] by auto
  have i: "0 < length (tbl_rows demo_master)"
    by (simp add: demo_master_def)
  have cols: "COL_WHOLESALER_NAME \<in> set (tbl_columns demo_mapping)"
    "tbl_columns demo_mapping_other = tbl_columns demo_mapping"
    by (simp_all add: demo_mapping_def demo_mapping_other_def)
  have flt: "filter (\<lambda>q. clean_value (cell_of q COL_WHOLESALER_NAME) = FIXED_WHOLESALER_NAME)
       (tbl_rows demo_mapping_other) =
    filter (\<lambda>q. clean_value (cell_of q COL_WHOLESALER_NAME) = FIXED_WHOLESALER_NAME)
       (tbl_rows demo_mapping)"
    by (simp add: demo_mapping_def demo_mapping_other_def cell_of_def clean_value_def isna_def
          py_str_def py_strip_def py_isspace_def ascii_lower_def null_words_def
          FIXED_WHOLESALER_NAME_def COL_WHOLESALER_ID_def COL_WHOLESALER_NAME_def)
  have val: "py_join [44, 32] (sort (remdups
        (map (\<lambda>q. snd (clean_pair [85, 73, 68] q))
          (filter (\<lambda>q.
             (COL_WHOLESALER_NAME \<in> set (tbl_columns demo_mapping) \<longrightarrow>
                clean_value (cell_of q COL_WHOLESALER_NAME) = FIXED_WHOLESALER_NAME) \<and>
             fst (clean_pair [85, 73, 68] q) \<noteq> [] \<and>
             snd (clean_pair [85, 73, 68] q) \<noteq> [] \<and>
             cell_of (tbl_rows demo_master ! 0) [85, 73, 68] = Str (fst (clean_pair [85, 73, 68] q)))
           (tbl_rows demo_mapping))))) = [55]"
    by (simp add: demo_mapping_def demo_master_def cell_of_def clean_value_def clean_id_def isna_def
          clean_pair_def Let_def str_of_int_def dec_digits_small py_endswith_def
          py_str_def py_strip_def py_isspace_def ascii_lower_def null_words_def
          FIXED_WHOLESALER_NAME_def COL_WHOLESALER_ID_def COL_WHOLESALER_NAME_def)
  from reflect_fixed_wholesaler_only
         [of ascii_lib demo_master demo_mapping t "[85, 73, 68]" "[85, 73, 68]" 0 demo_mapping_other]
       t demo_find_master demo_find_mapping i cols flt val
  show ?thesis
    by (simp add: registry_after_def)
qed

section \<open>Properties of step 7\<close>

lemma find_uid_column_find:
  "find_uid_column L cols =
     find (\<lambda>col. py_strip col \<in> set uid_patterns \<or>
                  py_contains UID_MARKER (str_upper L (py_strip col))) cols"
  by (induction cols) (simp_all add: Let_def)

lemma step3_uid_column_find:
  "step3_uid_column cols =
     find (\<lambda>col. py_contains UID_MARKER col \<or> py_contains [33258, 31038] col \<or>
                  py_contains [26045, 35373] col) cols"
  by (induction cols) simp_all

lemma manual_filled_length:
  "length (manual_filled uid_col rs) =
   length (filter (\<lambda>r. clean_value (cell_of r uid_col) \<noteq> []) rs)"
  by (simp add: manual_filled_def filter_map comp_def cell_of_def)

lemma standardize_columns_length:
  "standardize_columns L df = Some rs \<Longrightarrow> length rs \<le> length (tbl_rows df)"
  by (auto simp: standardize_columns_def Let_def split: if_splits option.splits)

lemma standardize_row_uid:
  "cell_of (standardize_row columns u w n r) COL_UID = Str (clean_value (cell_of r u))"
  by (simp add: standardize_row_def cell_of_def
        COL_UID_def COL_NAME_CHECK_def COL_WHOLESALER_NAME_def COL_WHOLESALER_ID_def COL_START_DATE_def)

lemma standardize_columns_uid:
  assumes "standardize_columns L df = Some rs" and "m \<in> set rs"
  shows "\<exists>s. s \<noteq> [] \<and> cell_of m COL_UID = Str s"
proof -
  from assms obtain u w n where
    "rs = map (standardize_row (tbl_columns df) u w n)
             (filter (\<lambda>r. clean_value (cell_of r u) \<noteq> []) (tbl_rows df))"
    unfolding standardize_columns_def Let_def
    by (cases "tbl_rows df = []"; cases "std_uid_column L (tbl_columns df)")
       (auto split: if_splits)
  with assms(2) obtain r where "clean_value (cell_of r u) \<noteq> []"
    "m = standardize_row (tbl_columns df) u w n r"
    by auto
  then show ?thesis
    by (simp add: standardize_row_uid)
qed

lemma distinct_count_list: "distinct xs \<Longrightarrow> count_list xs x \<le> 1"
  by (induction xs) (auto simp: count_list_0_iff)

lemma standardize_columns_defined:
  "distinct (tbl_columns df) \<Longrightarrow> standardize_columns L df \<noteq> None"
proof -
  assume "distinct (tbl_columns df)"
  then have "\<not> 1 < count_list (tbl_columns df) x" for x
    using distinct_count_list [of "tbl_columns df" x] by simp
  then show ?thesis
    by (simp add: standardize_columns_def Let_def split: option.splits)
qed

lemma rename_distinct:
  "distinct cols \<Longrightarrow> new \<notin> set cols \<or> old = new \<Longrightarrow>
   distinct (map (\<lambda>c. if c = old then new else c) cols)"
  by (auto simp: distinct_map inj_on_def)

lemma step7_manual_defined:
  assumes "distinct (tbl_columns df)"
    and "COL_UID \<notin> set (tbl_columns df) \<or> find_uid_column L (tbl_columns df) = Some COL_UID"
  shows "step7_manual L df \<noteq> None"
proof (cases "find_uid_column L (tbl_columns df)")
  case None
  then show ?thesis by (simp add: step7_manual_def)
next
  case (Some uid_col)
  with assms(2) have "COL_UID \<notin> set (tbl_columns df) \<or> uid_col = COL_UID"
    by auto
  then have "distinct (tbl_columns (rename_column uid_col COL_UID
                    \<lparr>tbl_columns = tbl_columns df, tbl_rows = rs\<rparr>))" for rs
    using rename_distinct [OF assms(1), of COL_UID uid_col]
    by (simp add: rename_column_def)
  then show ?thesis
    using Some standardize_columns_defined [of "rename_column uid_col COL_UID
                    \<lparr>tbl_columns = tbl_columns df, tbl_rows = manual_filled uid_col (tbl_rows df)\<rparr>" L]
    by (simp add: step7_manual_def Let_def)
qed

text \<open>
  Claim C9, as amended. The UID column of a table is the first column, from left to
  right, whose stripped label is a known alias or contains the marker UID once put in
  upper case: one scan with both tests, so an alias does not win over a marker column
  that stands before it. Step 3 takes the first column whose label contains one of its
  three markers. A manual row is admitted only with a non-empty identifier: step 7
  admits at most as many rows as the unmatched list has rows whose cleaned UID cell is
  not empty, and every admitted row carries a non-empty UID.
\<close>

theorem uid_column_first_match:
  "find_uid_column L cols =
     find (\<lambda>col. py_strip col \<in> set uid_patterns \<or>
                  py_contains UID_MARKER (str_upper L (py_strip col))) cols \<and>
   step3_uid_column cols =
     find (\<lambda>col. py_contains UID_MARKER col \<or> py_contains [33258, 31038] col \<or>
                  py_contains [26045, 35373] col) cols \<and>
   (find_uid_column L (tbl_columns df_unmatched) = Some uid_col \<and>
    step7_manual L df_unmatched = Some df_manual_clean \<longrightarrow>
      length df_manual_clean \<le>
        length (filter (\<lambda>r. clean_value (cell_of r uid_col) \<noteq> []) (tbl_rows df_unmatched)) \<and>
      (\<forall>m \<in> set df_manual_clean. \<exists>s. s \<noteq> [] \<and> cell_of m COL_UID = Str s))"
proof (intro conjI impI)
  show "find_uid_column L cols =
     find (\<lambda>col. py_strip col \<in> set uid_patterns \<or>
                  py_contains UID_MARKER (str_upper L (py_strip col))) cols"
    by (rule find_uid_column_find)
  show "step3_uid_column cols =
     find (\<lambda>col. py_contains UID_MARKER col \<or> py_contains [33258, 31038] col \<or>
                  py_contains [26045, 35373] col) cols"
    by (rule step3_uid_column_find)
next
  assume a: "find_uid_column L (tbl_columns df_unmatched) = Some uid_col \<and>
    step7_manual L df_unmatched = Some df_manual_clean"
  let ?dfm = "manual_filled uid_col (tbl_rows df_unmatched)"
  let ?ren = "rename_column uid_col COL_UID
                    \<lparr>tbl_columns = tbl_columns df_unmatched, tbl_rows = ?dfm\<rparr>"
  from a have cases: "df_manual_clean = [] \<or> standardize_columns L ?ren = Some df_manual_clean"
    by (auto simp: step7_manual_def Let_def split: if_splits)
  have len: "length (tbl_rows ?ren) =
      length (filter (\<lambda>r. clean_value (cell_of r uid_col) \<noteq> []) (tbl_rows df_unmatched))"
    by (simp add: rename_column_def manual_filled_length)
  from cases show "length df_manual_clean \<le>
        length (filter (\<lambda>r. clean_value (cell_of r uid_col) \<noteq> []) (tbl_rows df_unmatched))"
    using standardize_columns_length [of L ?ren df_manual_clean] len by auto
  from cases show "\<forall>m \<in> set df_manual_clean. \<exists>s. s \<noteq> [] \<and> cell_of m COL_UID = Str s"
    using standardize_columns_uid [of L ?ren df_manual_clean] by auto
qed

text \<open>
  Claim C9 as stated fails: with the columns \<open>UID_x\<close>, \<open>UID\<close> in this
  order the scan returns \<open>UID_x\<close>, which only contains the marker, although
  \<open>UID\<close> is an exact alias.
\<close>

theorem uid_alias_priority_counterexample:
  "find_uid_column ascii_lib [[85, 73, 68, 95, 120], [85, 73, 68]] = Some [85, 73, 68, 95, 120] \<and>
   py_strip [85, 73, 68] \<in> set uid_patterns \<and>
   py_strip [85, 73, 68, 95, 120] \<notin> set uid_patterns"
  by (simp add: py_strip_def py_isspace_def uid_patterns_def UID_MARKER_def ascii_lib_def
        ascii_upper_def starts_with_def)

theorem uid_column_first_match_witness:
  "find_uid_column ascii_lib (tbl_columns demo_unmatched) = Some [85, 73, 68] \<and>
   (\<exists>rs. step7_manual ascii_lib demo_unmatched = Some rs \<and> length rs \<le> 1 \<and>
      (\<forall>m \<in> set rs. \<exists>s. s \<noteq> [] \<and> cell_of m COL_UID = Str s))"
proof -
  have f: "find_uid_column ascii_lib (tbl_columns demo_unmatched) = Some [85, 73, 68]"
    by (simp add: demo_unmatched_def py_strip_def py_isspace_def uid_patterns_def UID_MARKER_def
          ascii_lib_def ascii_upper_def starts_with_def COL_CUSTOMER_CODE_def)
  have n: "length (filter (\<lambda>r. clean_value (cell_of r [85, 73, 68]) \<noteq> []) (tbl_rows demo_unmatched)) = 1"
    by (simp add: demo_unmatched_def cell_of_def clean_value_def isna_def py_str_def py_strip_def
          py_isspace_def ascii_lower_def null_words_def COL_CUSTOMER_CODE_def)
  have "step7_manual ascii_lib demo_unmatched \<noteq> None"
    by (rule step7_manual_defined)
       (simp_all add: demo_unmatched_def COL_CUSTOMER_CODE_def COL_UID_def)
  then obtain rs where rs: "step7_manual ascii_lib demo_unmatched = Some rs"
    by auto
  from uid_column_first_match [of ascii_lib "[]" demo_unmatched "[85, 73, 68]" rs] f rs n
  show ?thesis by simp
qed

lemma ddl_set: "set (drop_duplicates_last key xs) \<subseteq> set xs"
  by (induction xs) auto

lemma ddl_keys: "key ` set (drop_duplicates_last key xs) = key ` set xs"
  by (induction xs) auto

lemma ddl_distinct: "distinct (map key (drop_duplicates_last key xs))"
proof (induction xs)
  case Nil
  then show ?case by simp
next
  case (Cons x xs)
  then show ?case
    using ddl_keys [of key xs] by auto
qed

lemma ddl_keeps_last:
  "k \<in> key ` set xs \<Longrightarrow>
   filter (\<lambda>r. key r = k) (drop_duplicates_last key xs) = [last (filter (\<lambda>r. key r = k) xs)]"
proof (induction xs)
  case Nil
  then show ?case by simp
next
  case (Cons x xs)
  show ?case
  proof (cases "key x \<in> key ` set xs")
    case True
    with Cons.prems have k: "k \<in> key ` set xs" by auto
    then have ne: "filter (\<lambda>r. key r = k) xs \<noteq> []"
      by (auto simp: filter_empty_conv)
    from True Cons.IH [OF k] ne show ?thesis by simp
  next
    case False
    show ?thesis
    proof (cases "k = key x")
      case True
      with False have "filter (\<lambda>r. key r = k) xs = []"
        by (auto simp: filter_empty_conv image_iff)
      moreover have "key x \<notin> key ` set (drop_duplicates_last key xs)"
        using False by (simp add: ddl_keys)
      then have "filter (\<lambda>r. key r = k) (drop_duplicates_last key xs) = []"
        using True by (auto simp: filter_empty_conv image_iff)
      ultimately show ?thesis using True False by simp
    next
      case neq: False
      with Cons.prems have k: "k \<in> key ` set xs" by auto
      from neq False Cons.IH [OF k] show ?thesis by auto
    qed
  qed
qed

lemma clean_wholesaler_id_cell:
  "cell_of (clean_wholesaler_id r) COL_WHOLESALER_ID = Str (clean_value (cell_of r COL_WHOLESALER_ID))"
  by (simp add: clean_wholesaler_id_def cell_of_def)

text \<open>
  Claim C4, as amended. When there is at least one new row, automatic or manual, step 7
  writes the existing rows followed by the automatic and the manual rows, keeping for
  each pair (UID, wholesaler id) the last row of that pair only (exactly one row for each
  pair of the union, its last one), then cleans the wholesaler ids and drops the rows
  whose id is empty. When there is no new row the run stops with a warning and the table
  on disk stays as it is. So a second run without new rows changes nothing:
  merge(merge(A, B, C), {}, {}) = merge(A, B, C).
\<close>

theorem merge_final_amended:
  "(df_candidate_clean @ df_manual_clean \<noteq> [] \<longrightarrow>
      (\<exists>t. merge_final df_candidate_clean df_manual_clean df_existing = Some t \<and>
           mapping_after df_candidate_clean df_manual_clean df_existing = Some t \<and>
           tbl_rows t =
             filter (\<lambda>r. cell_of r COL_WHOLESALER_ID \<noteq> Str [])
               (map clean_wholesaler_id
                  (drop_duplicates_last pair_key
                     (existing_rows df_existing @ df_candidate_clean @ df_manual_clean))) \<and>
           (\<forall>r \<in> set (tbl_rows t). \<exists>s. s \<noteq> [] \<and> cell_of r COL_WHOLESALER_ID = Str s))) \<and>
   (\<forall>k \<in> pair_key ` set union_rows.
      filter (\<lambda>r. pair_key r = k) (drop_duplicates_last pair_key union_rows) =
        [last (filter (\<lambda>r. pair_key r = k) union_rows)]) \<and>
   (df_candidate_clean @ df_manual_clean = [] \<longrightarrow>
      merge_final df_candidate_clean df_manual_clean df_existing = None \<and>
      mapping_after df_candidate_clean df_manual_clean df_existing = df_existing) \<and>
   mapping_after [] [] (mapping_after df_candidate_clean df_manual_clean df_existing) =
     mapping_after df_candidate_clean df_manual_clean df_existing"
proof (intro conjI impI ballI)
  assume ne: "df_candidate_clean @ df_manual_clean \<noteq> []"
  let ?rows = "filter (\<lambda>r. cell_of r COL_WHOLESALER_ID \<noteq> Str [])
               (map clean_wholesaler_id
                  (drop_duplicates_last pair_key
                     (existing_rows df_existing @ df_candidate_clean @ df_manual_clean)))"
  let ?t = "\<lparr>tbl_columns = merge_columns df_existing, tbl_rows = ?rows\<rparr>"
  from ne have m: "merge_final df_candidate_clean df_manual_clean df_existing = Some ?t"
    by (simp add: merge_final_def Let_def)
  then have a: "mapping_after df_candidate_clean df_manual_clean df_existing = Some ?t"
    by (simp add: mapping_after_def)
  have "\<forall>r \<in> set ?rows. \<exists>s. s \<noteq> [] \<and> cell_of r COL_WHOLESALER_ID = Str s"
    by (auto simp: clean_wholesaler_id_cell)
  with m a show "\<exists>t. merge_final df_candidate_clean df_manual_clean df_existing = Some t \<and>
           mapping_after df_candidate_clean df_manual_clean df_existing = Some t \<and>
           tbl_rows t = ?rows \<and>
           (\<forall>r \<in> set (tbl_rows t). \<exists>s. s \<noteq> [] \<and> cell_of r COL_WHOLESALER_ID = Str s)"
    by simp
next
  fix k
  assume "k \<in> pair_key ` set union_rows"
  then show "filter (\<lambda>r. pair_key r = k) (drop_duplicates_last pair_key union_rows) =
        [last (filter (\<lambda>r. pair_key r = k) union_rows)]"
    by (rule ddl_keeps_last)
next
  assume e: "df_candidate_clean @ df_manual_clean = []"
  then show "merge_final df_candidate_clean df_manual_clean df_existing = None"
    by (simp add: merge_final_def)
  then show "mapping_after df_candidate_clean df_manual_clean df_existing = df_existing"
    by (simp add: mapping_after_def)
next
  show "mapping_after [] [] (mapping_after df_candidate_clean df_manual_clean df_existing) =
     mapping_after df_candidate_clean df_manual_clean df_existing"
    by (simp add: mapping_after_def merge_final_def)
qed

text \<open>
  Claim C4 as stated fails: without new rows the table keeps a row whose wholesaler id
  is empty (the rows the registry build writes have none), and is not deduplicated.
\<close>

theorem merge_final_counterexample:
  "mapping_after [] [] (Some demo_existing) = Some demo_existing \<and>
   clean_value (cell_of (hd (tbl_rows demo_existing)) COL_WHOLESALER_ID) = []"
  by (simp add: mapping_after_def merge_final_def demo_existing_def cell_of_def clean_value_def isna_def
        COL_UID_def COL_NAME_CHECK_def COL_WHOLESALER_NAME_def COL_START_DATE_def COL_WHOLESALER_ID_def)

lemma demo_row_keys:
  "pair_key demo_new_row = (KStr [65, 50], KStr [55])"
  "pair_key demo_old_row = (KStr [65, 50], KStr [55])"
  by (simp_all add: pair_key_def demo_new_row_def demo_old_row_def cell_of_def key_of_cell_def
        COL_UID_def COL_NAME_CHECK_def COL_WHOLESALER_NAME_def COL_START_DATE_def COL_WHOLESALER_ID_def)

theorem merge_final_amended_witness:
  "[demo_new_row] @ [] \<noteq> [] \<and>
   (\<exists>t. merge_final [demo_new_row] [] (Some demo_existing) = Some t \<and>
        (\<exists>s. s \<noteq> [] \<and> cell_of (hd (tbl_rows t)) COL_WHOLESALER_ID = Str s)) \<and>
   (KStr [65, 50], KStr [55]) \<in> pair_key ` set [demo_old_row, demo_new_row] \<and>
   filter (\<lambda>r. pair_key r = (KStr [65, 50], KStr [55]))
     (drop_duplicates_last pair_key [demo_old_row, demo_new_row]) = [demo_new_row] \<and>
   [] @ [] = ([] :: row list) \<and>
   mapping_after [] [] (Some demo_existing) = Some demo_existing"
proof -
  have k: "(KStr [65, 50], KStr [55]) \<in> pair_key ` set [demo_old_row, demo_new_row]"
    by (simp add: demo_row_keys)
  have rows: "drop_duplicates_last pair_key ([] @ [demo_old_row, demo_new_row] @ []) = [demo_new_row]"
    by (simp add: demo_row_keys)
  have ex: "existing_rows (Some demo_existing) = tbl_rows demo_existing"
    by (simp add: existing_rows_def)
  have ne: "tbl_rows t \<noteq> []" if "merge_final [demo_new_row] [] (Some demo_existing) = Some t" for t
    using that
    by (auto simp: merge_final_def Let_def existing_rows_def demo_existing_def demo_new_row_def
          pair_key_def cell_of_def key_of_cell_def clean_wholesaler_id_def clean_value_def isna_def
          py_str_def py_strip_def py_isspace_def ascii_lower_def null_words_def
          COL_UID_def COL_NAME_CHECK_def COL_WHOLESALER_NAME_def COL_START_DATE_def COL_WHOLESALER_ID_def)
  from merge_final_amended
         [of "[demo_new_row]" "[]" "Some demo_existing" "[demo_old_row, demo_new_row]"] k
  have
    1: "\<exists>t. merge_final [demo_new_row] [] (Some demo_existing) = Some t \<and>
           (\<forall>r \<in> set (tbl_rows t). \<exists>s. s \<noteq> [] \<and> cell_of r COL_WHOLESALER_ID = Str s)"
    and 2: "filter (\<lambda>r. pair_key r = (KStr [65, 50], KStr [55]))
     (drop_duplicates_last pair_key [demo_old_row, demo_new_row]) =
       [last (filter (\<lambda>r. pair_key r = (KStr [65, 50], KStr [55])) [demo_old_row, demo_new_row])]"
    by auto
  from 1 ne have 3: "\<exists>t. merge_final [demo_new_row] [] (Some demo_existing) = Some t \<and>
        (\<exists>s. s \<noteq> [] \<and> cell_of (hd (tbl_rows t)) COL_WHOLESALER_ID = Str s)"
    by (metis hd_in_set)
  from merge_final_amended [of "[]" "[]" "Some demo_existing"]
  have 4: "mapping_after [] [] (Some demo_existing) = Some demo_existing"
    by simp
  from 2 3 4 k show ?thesis
    by (simp add: demo_row_keys)
qed

section \<open>Properties of the normalizers\<close>

lemma replicate_num: "replicate (numeral k) x = x # replicate (pred_numeral k) x"
  by (simp add: numeral_eq_Suc)

lemma zfill7_length: "length s \<le> 7 \<Longrightarrow> length (zfill7 s) = 7"
  by (simp add: zfill7_def)

text \<open>
  Claim C7, as amended. Both versions of the postal normalizer strip the non-digits
  after the width conversion. With 1 to 6 digits the digits are padded with zeros on the
  left to 7 and written NNN-NNNN (so "123" gives "000-0123"); with exactly 7 digits they
  are written NNN-NNNN; with more than 7 digits the width-converted text comes back. An
  absent value, and a text that is empty or one of nan, none, null, nat, gives the empty
  text. In step 5 a text without any digit comes back width-converted, not empty.
\<close>

theorem normalize_postal_amended:
  "(postal_null val \<longrightarrow>
      normalize_postal_code L val = [] \<and> normalize_postal_code_step1 L val = []) \<and>
   (\<not> postal_null val \<and> 1 \<le> length (postal_digits L val) \<and> length (postal_digits L val) \<le> 6 \<longrightarrow>
      normalize_postal_code L val = hyphenate (zfill7 (postal_digits L val)) \<and>
      normalize_postal_code_step1 L val = hyphenate (zfill7 (postal_digits L val)) \<and>
      length (zfill7 (postal_digits L val)) = 7 \<and>
      length (hyphenate (zfill7 (postal_digits L val))) = 8) \<and>
   (\<not> postal_null val \<and> length (postal_digits L val) = 7 \<longrightarrow>
      normalize_postal_code L val = hyphenate (postal_digits L val) \<and>
      normalize_postal_code_step1 L val = hyphenate (postal_digits L val)) \<and>
   (\<not> postal_null val \<and> 7 < length (postal_digits L val) \<longrightarrow>
      normalize_postal_code L val = postal_unified L val \<and>
      normalize_postal_code_step1 L val = postal_unified L val) \<and>
   (\<not> postal_null val \<and> postal_digits L val = [] \<longrightarrow>
      normalize_postal_code L val = postal_unified L val) \<and>
   (zen_to_han L [49, 50, 51] = [49, 50, 51] \<and> re_digit L 49 \<and> re_digit L 50 \<and> re_digit L 51 \<longrightarrow>
      normalize_postal_code L (Str [49, 50, 51]) = [48, 48, 48, 45, 48, 49, 50, 51] \<and>
      normalize_postal_code_step1 L (Str [49, 50, 51]) = [48, 48, 48, 45, 48, 49, 50, 51])"
proof (intro conjI impI)
  assume "postal_null val"
  then show "normalize_postal_code L val = []" "normalize_postal_code_step1 L val = []"
    by (auto simp: postal_null_def normalize_postal_code_def normalize_postal_code_step1_def)
next
  assume a: "\<not> postal_null val \<and> 1 \<le> length (postal_digits L val) \<and> length (postal_digits L val) \<le> 6"
  then have l: "length (zfill7 (postal_digits L val)) = 7"
    by (simp add: zfill7_length)
  from a l show "normalize_postal_code L val = hyphenate (zfill7 (postal_digits L val))"
    by (simp add: postal_null_def normalize_postal_code_def Let_def postal_digits_def hyphenate_def)
  from a l show "normalize_postal_code_step1 L val = hyphenate (zfill7 (postal_digits L val))"
    by (simp add: postal_null_def normalize_postal_code_step1_def Let_def postal_digits_def hyphenate_def)
  from l show "length (zfill7 (postal_digits L val)) = 7" .
  from l show "length (hyphenate (zfill7 (postal_digits L val))) = 8"
    by (simp add: hyphenate_def)
next
  assume a: "\<not> postal_null val \<and> length (postal_digits L val) = 7"
  then show "normalize_postal_code L val = hyphenate (postal_digits L val)"
    by (simp add: postal_null_def normalize_postal_code_def Let_def postal_digits_def hyphenate_def)
  from a show "normalize_postal_code_step1 L val = hyphenate (postal_digits L val)"
    by (simp add: postal_null_def normalize_postal_code_step1_def Let_def postal_digits_def hyphenate_def)
next
  assume a: "\<not> postal_null val \<and> 7 < length (postal_digits L val)"
  then show "normalize_postal_code L val = postal_unified L val"
    by (simp add: postal_null_def normalize_postal_code_def Let_def postal_digits_def)
  from a show "normalize_postal_code_step1 L val = postal_unified L val"
    by (simp add: postal_null_def normalize_postal_code_step1_def Let_def postal_digits_def)
next
  assume a: "\<not> postal_null val \<and> postal_digits L val = []"
  then show "normalize_postal_code L val = postal_unified L val"
    by (simp add: postal_null_def normalize_postal_code_def Let_def postal_digits_def)
next
  assume a: "zen_to_han L [49, 50, 51] = [49, 50, 51] \<and> re_digit L 49 \<and> re_digit L 50 \<and> re_digit L 51"
  have s: "py_strip [49, 50, 51] = [49, 50, 51]"
    by (simp add: py_strip_def py_isspace_def)
  have n: "ascii_lower [49, 50, 51] \<notin> set ([] # null_words)"
    by (simp add: ascii_lower_def null_words_def)
  from a s n show "normalize_postal_code L (Str [49, 50, 51]) = [48, 48, 48, 45, 48, 49, 50, 51]"
    by (simp add: normalize_postal_code_def isna_def postal_text_def py_str_def postal_unified_def
          Let_def zfill7_def replicate_num)
  from a s n show "normalize_postal_code_step1 L (Str [49, 50, 51]) = [48, 48, 48, 45, 48, 49, 50, 51]"
    by (simp add: normalize_postal_code_step1_def isna_def postal_text_def py_str_def postal_unified_def
          Let_def zfill7_def replicate_num)
qed

text \<open>
  Claim C7 as stated fails on a text without digits: for "abc" step 5 returns "abc",
  and step 1 and the rebuild script return "000-0000"; neither returns the empty text.
\<close>

theorem normalize_postal_counterexample:
  "normalize_postal_code ascii_lib (Str [97, 98, 99]) = [97, 98, 99] \<and>
   normalize_postal_code_step1 ascii_lib (Str [97, 98, 99]) = [48, 48, 48, 45, 48, 48, 48, 48] \<and>
   filter (re_digit ascii_lib) [97, 98, 99] = []"
  by (simp add: normalize_postal_code_def normalize_postal_code_step1_def isna_def postal_text_def
        py_str_def postal_unified_def Let_def zfill7_def replicate_num py_strip_def py_isspace_def
        ascii_lower_def null_words_def ascii_lib_def)

theorem normalize_postal_amended_witness:
  "normalize_postal_code ascii_lib (Str [49, 50, 51]) = [48, 48, 48, 45, 48, 49, 50, 51] \<and>
   normalize_postal_code_step1 ascii_lib (Str [49, 50, 51]) = [48, 48, 48, 45, 48, 49, 50, 51] \<and>
   postal_null NaN \<and> normalize_postal_code ascii_lib NaN = [] \<and>
   \<not> postal_null (IntV 1234567) \<and> length (postal_digits ascii_lib (IntV 1234567)) = 7 \<and>
   normalize_postal_code ascii_lib (IntV 1234567) = [49, 50, 51, 45, 52, 53, 54, 55]"
proof -
  have h: "zen_to_han ascii_lib [49, 50, 51] = [49, 50, 51] \<and> re_digit ascii_lib 49 \<and>
           re_digit ascii_lib 50 \<and> re_digit ascii_lib 51"
    by (simp add: ascii_lib_def)
  have n: "postal_null NaN"
    by (simp add: postal_null_def isna_def)
  have t: "postal_text (IntV 1234567) = [49, 50, 51, 52, 53, 54, 55]"
    by (simp add: postal_text_def str_of_int_def dec_digits.simps)
  have p: "\<not> postal_null (IntV 1234567)"
    by (simp add: postal_null_def isna_def t ascii_lower_def null_words_def)
  have d: "postal_digits ascii_lib (IntV 1234567) = [49, 50, 51, 52, 53, 54, 55]"
    by (simp add: postal_digits_def postal_unified_def t ascii_lib_def py_strip_def py_isspace_def)
  from normalize_postal_amended [of NaN ascii_lib] normalize_postal_amended [of "IntV 1234567" ascii_lib]
    h n p d
  show ?thesis
    by (simp add: hyphenate_def)
qed

lemma remove_all_subset: "set (remove_all t s) \<subseteq> set s"
proof (induction t s rule: remove_all.induct)
  case (1 sub)
  then show ?case by simp
next
  case (2 sub c cs)
  show ?case
  proof (cases "sub \<noteq> [] \<and> starts_with (c # cs) sub")
    case True
    with 2 have "set (remove_all sub (c # cs)) \<subseteq> set (drop (length sub) (c # cs))"
      by simp
    then show ?thesis
      using set_drop_subset [of "length sub" "c # cs"] by blast
  next
    case False
    with 2 show ?thesis by auto
  qed
qed

lemma strip_titles_subset: "set (strip_titles ts s) \<subseteq> set s"
proof (induction ts arbitrary: s)
  case Nil
  then show ?case by simp
next
  case (Cons t ts)
  have "set (strip_titles ts (remove_all t s)) \<subseteq> set (remove_all t s)"
    by (rule Cons.IH)
  with remove_all_subset [of t s] show ?case by auto
qed

lemma strip_titles_Nil: "strip_titles ts [] = []"
  using strip_titles_subset [of ts "[]"] by simp

lemma remove_all_id: "\<not> py_contains t s \<Longrightarrow> remove_all t s = s"
  by (induction t s rule: remove_all.induct) auto

lemma strip_titles_id: "\<not> has_title ts s \<Longrightarrow> strip_titles ts s = s"
  by (induction ts) (auto simp: has_title_def remove_all_id)

lemma kanji_num_range: "kanji_num c = c \<or> kanji_num c \<in> {48..57}"
  by (simp add: kanji_num_def)

lemma kanji_num_idem: "kanji_num (kanji_num c) = kanji_num c"
  by (simp add: kanji_num_def)

lemma translate_kanji_set: "set (translate_kanji s) \<subseteq> set s \<union> {48..57}"
proof
  fix c
  assume "c \<in> set (translate_kanji s)"
  then obtain c' where "c' \<in> set s" "c = kanji_num c'"
    by (auto simp: translate_kanji_def)
  with kanji_num_range [of c'] show "c \<in> set s \<union> {48..57}"
    by auto
qed

lemma translate_kanji_id: "\<forall>c \<in> set s. kanji_num c = c \<Longrightarrow> translate_kanji s = s"
  by (simp add: translate_kanji_def map_idI)

lemma translate_kanji_fixed: "c \<in> set (translate_kanji s) \<Longrightarrow> kanji_num c = c"
  by (auto simp: translate_kanji_def kanji_num_idem)

lemma filter_id: "\<forall>c \<in> set s. P c \<Longrightarrow> filter P s = s"
  by (simp add: filter_id_conv)

text \<open>The text after title stripping: width-unified, without kanji numerals.\<close>

lemma stripped_unified:
  assumes "width_lib L"
  shows "unified L (strip_titles ts (translate_kanji (han_to_zen_kana L (zen_to_han_nokana L s))))"
proof -
  let ?w = "han_to_zen_kana L (zen_to_han_nokana L s)"
  from assms have u: "unified L ?w"
    by (simp add: width_lib_def)
  have "set (strip_titles ts (translate_kanji ?w)) \<subseteq> set ?w \<union> {48..57}"
    using strip_titles_subset [of ts "translate_kanji ?w"] translate_kanji_set [of ?w] by blast
  with u assms show ?thesis
    unfolding width_lib_def by blast
qed

lemma stripped_no_kanji:
  "c \<in> set (strip_titles ts (translate_kanji w)) \<Longrightarrow> kanji_num c = c"
  using strip_titles_subset [of ts "translate_kanji w"] translate_kanji_fixed [of c w] by blast

lemma unified_filter:
  assumes "width_lib L" and "unified L s"
  shows "unified L (filter P s)"
proof -
  have "set (filter P s) \<subseteq> set s \<union> {48..57}" by auto
  with assms show ?thesis unfolding width_lib_def by blast
qed

lemma width_lib_lower_touched:
  "width_lib L \<Longrightarrow> c \<in> set (str_lower L s) \<Longrightarrow> touched c \<Longrightarrow> c \<in> set s"
  unfolding width_lib_def by (elim conjE allE [of _ s] allE [of _ c]) simp

lemma width_lib_lower:
  assumes "width_lib L"
  shows "str_lower L (str_lower L s) = str_lower L s" and "str_lower L [] = []"
    and "unified L s \<Longrightarrow> unified L (str_lower L s)"
  using assms unfolding width_lib_def by simp_all

lemma unified_Nil: "width_lib L \<Longrightarrow> unified L []"
  unfolding width_lib_def by (metis empty_set empty_subsetI)

lemma normalize_text_for_matching_Str:
  "normalize_text_for_matching L (Str t) =
     str_lower L (filter (\<lambda>c. \<not> (py_isspace c \<or> is_dash c \<or> is_unit c))
       (strip_titles CORP_TITLES (translate_kanji (han_to_zen_kana L (zen_to_han_nokana L t)))))"
  unfolding normalize_text_for_matching_def isna_def py_str_def Let_def by simp

lemma normalize_text_step2_Str:
  "normalize_text_step2 L (Str t) =
     filter (\<lambda>c. \<not> (py_isspace c \<or> is_dash c \<or> is_unit_step2 c))
       (strip_titles CORP_TITLES_step2 (translate_kanji (han_to_zen_kana L (zen_to_han_nokana L t))))"
  unfolding normalize_text_step2_def isna_def py_str_def Let_def by simp

lemma untouched_fixed:
  assumes "\<And>c. c \<in> set y \<Longrightarrow> \<not> touched c"
  shows "translate_kanji y = y"
    and "filter (\<lambda>c. \<not> (py_isspace c \<or> is_dash c \<or> is_unit c)) y = y"
proof -
  show "translate_kanji y = y"
    using assms by (intro translate_kanji_id) (auto simp: touched_def)
  show "filter (\<lambda>c. \<not> (py_isspace c \<or> is_dash c \<or> is_unit c)) y = y"
    using assms by (intro filter_id) (auto simp: touched_def)
qed

lemma matching_fixed:
  assumes "unified L y" and "\<And>c. c \<in> set y \<Longrightarrow> \<not> touched c"
    and "\<not> has_title CORP_TITLES y" and "str_lower L y = y"
  shows "normalize_text_for_matching L (Str y) = y"
proof -
  from assms(1) have z: "zen_to_han_nokana L y = y" "han_to_zen_kana L y = y"
    by (simp_all add: unified_def)
  have k: "translate_kanji y = y"
    and f: "filter (\<lambda>c. \<not> (py_isspace c \<or> is_dash c \<or> is_unit c)) y = y"
    using untouched_fixed [of y] assms(2) by blast+
  note d = strip_titles_id [OF assms(3)]
  show ?thesis
    unfolding normalize_text_for_matching_Str z k d f assms(4) ..
qed

lemma step2_fixed:
  assumes "unified L y"
    and "\<And>c. c \<in> set y \<Longrightarrow>
            kanji_num c = c \<and> \<not> (py_isspace c \<or> is_dash c \<or> is_unit_step2 c)"
    and "\<not> has_title CORP_TITLES_step2 y"
  shows "normalize_text_step2 L (Str y) = y"
proof -
  from assms(1) have z: "zen_to_han_nokana L y = y" "han_to_zen_kana L y = y"
    by (simp_all add: unified_def)
  have k: "translate_kanji y = y"
    using assms(2) by (intro translate_kanji_id) blast
  have f: "filter (\<lambda>c. \<not> (py_isspace c \<or> is_dash c \<or> is_unit_step2 c)) y = y"
    using assms(2) by (intro filter_id) blast
  note d = strip_titles_id [OF assms(3)]
  show ?thesis
    unfolding normalize_text_step2_Str z k d f ..
qed

lemma filtered_clean:
  assumes "c \<in> set (filter (\<lambda>c. \<not> (py_isspace c \<or> is_dash c \<or> is_unit c))
                        (strip_titles ts (translate_kanji w)))"
  shows "\<not> touched c"
proof -
  from assms have "c \<in> set (strip_titles ts (translate_kanji w))"
    "\<not> (py_isspace c \<or> is_dash c \<or> is_unit c)" by simp_all
  with stripped_no_kanji [of c ts w] show ?thesis
    by (simp add: touched_def)
qed

lemma normalize_text_for_matching_out:
  assumes lib: "width_lib L"
  shows "unified L (normalize_text_for_matching L v)"
    and "c \<in> set (normalize_text_for_matching L v) \<Longrightarrow> \<not> touched c"
    and "str_lower L (normalize_text_for_matching L v) = normalize_text_for_matching L v"
proof -
  let ?e = "filter (\<lambda>c. \<not> (py_isspace c \<or> is_dash c \<or> is_unit c))
               (strip_titles CORP_TITLES
                  (translate_kanji (han_to_zen_kana L (zen_to_han_nokana L (py_str v)))))"
  have y: "normalize_text_for_matching L v = (if isna v then [] else str_lower L ?e)"
    unfolding normalize_text_for_matching_def Let_def ..
  have ue: "unified L ?e"
    using unified_filter [OF lib stripped_unified [OF lib]] .
  show "unified L (normalize_text_for_matching L v)"
    unfolding y using unified_Nil [OF lib] width_lib_lower(3) [OF lib ue] by simp
  show "str_lower L (normalize_text_for_matching L v) = normalize_text_for_matching L v"
    unfolding y using width_lib_lower(1,2) [OF lib] by simp
  show "\<not> touched c" if c: "c \<in> set (normalize_text_for_matching L v)"
  proof
    assume t: "touched c"
    from c have "\<not> isna v" and "c \<in> set (str_lower L ?e)"
      unfolding y by (auto split: if_splits)
    from width_lib_lower_touched [OF lib this(2) t] filtered_clean t show False
      by blast
  qed
qed

lemma normalize_text_step2_out:
  assumes lib: "width_lib L"
  shows "unified L (normalize_text_step2 L v)"
    and "c \<in> set (normalize_text_step2 L v) \<Longrightarrow>
           kanji_num c = c \<and> \<not> (py_isspace c \<or> is_dash c \<or> is_unit_step2 c)"
proof -
  let ?d = "strip_titles CORP_TITLES_step2
                  (translate_kanji (han_to_zen_kana L (zen_to_han_nokana L (py_str v))))"
  let ?e = "filter (\<lambda>c. \<not> (py_isspace c \<or> is_dash c \<or> is_unit_step2 c)) ?d"
  have y: "normalize_text_step2 L v = (if isna v then [] else ?e)"
    unfolding normalize_text_step2_def Let_def ..
  have ue: "unified L ?e"
    using unified_filter [OF lib stripped_unified [OF lib]] .
  show "unified L (normalize_text_step2 L v)"
    unfolding y using unified_Nil [OF lib] ue by simp
  show "kanji_num c = c \<and> \<not> (py_isspace c \<or> is_dash c \<or> is_unit_step2 c)"
    if c: "c \<in> set (normalize_text_step2 L v)"
  proof -
    from c have "c \<in> set ?d" "\<not> (py_isspace c \<or> is_dash c \<or> is_unit_step2 c)"
      unfolding y by (auto split: if_splits)
    with stripped_no_kanji [of c CORP_TITLES_step2] show ?thesis
      by blast
  qed
qed

lemma normalize_text_for_matching_idem:
  assumes lib: "width_lib L"
    and nt: "\<not> has_title CORP_TITLES (normalize_text_for_matching L v)"
  shows "normalize_text_for_matching L (Str (normalize_text_for_matching L v)) =
         normalize_text_for_matching L v"
proof (rule matching_fixed)
  show "unified L (normalize_text_for_matching L v)"
    by (rule normalize_text_for_matching_out(1) [OF lib])
  show "\<not> touched c" if "c \<in> set (normalize_text_for_matching L v)" for c
    using that by (rule normalize_text_for_matching_out(2) [OF lib])
  show "\<not> has_title CORP_TITLES (normalize_text_for_matching L v)"
    by (rule nt)
  show "str_lower L (normalize_text_for_matching L v) = normalize_text_for_matching L v"
    by (rule normalize_text_for_matching_out(3) [OF lib])
qed

lemma normalize_text_step2_idem:
  assumes lib: "width_lib L"
    and nt: "\<not> has_title CORP_TITLES_step2 (normalize_text_step2 L v)"
  shows "normalize_text_step2 L (Str (normalize_text_step2 L v)) = normalize_text_step2 L v"
proof (rule step2_fixed)
  show "unified L (normalize_text_step2 L v)"
    by (rule normalize_text_step2_out(1) [OF lib])
  show "kanji_num c = c \<and> \<not> (py_isspace c \<or> is_dash c \<or> is_unit_step2 c)"
    if "c \<in> set (normalize_text_step2 L v)" for c
    using that by (rule normalize_text_step2_out(2) [OF lib])
  show "\<not> has_title CORP_TITLES_step2 (normalize_text_step2 L v)"
    by (rule nt)
qed

text \<open>
  Claim C5, as amended. For libraries with the properties above, the normalizer of
  steps 5 and 6 and the normalizer of step 2 are idempotent on every input whose
  normalized key contains none of the legal-entity titles: there
  normalize(normalize(x)) = normalize(x). (The titles are stripped once, before the
  symbols are removed, so a key can still contain a title, and a second pass strips it.)
\<close>

theorem normalize_idempotent_amended:
  "width_lib L \<longrightarrow>
     (\<not> has_title CORP_TITLES (normalize_text_for_matching L v) \<longrightarrow>
        normalize_text_for_matching L (Str (normalize_text_for_matching L v)) =
        normalize_text_for_matching L v) \<and>
     (\<not> has_title CORP_TITLES_step2 (normalize_text_step2 L v) \<longrightarrow>
        normalize_text_step2 L (Str (normalize_text_step2 L v)) = normalize_text_step2 L v)"
  using normalize_text_for_matching_idem [of L v] normalize_text_step2_idem [of L v]
  by blast

text \<open>
  Claim C5 as stated fails: a text made of the title "kabushiki-gaisha" wrapped around
  itself (its first character, the whole title, its last three characters) is normalized
  to the title, and the title is normalized to the empty text; in both normalizers.
\<close>

theorem normalize_idempotent_counterexample:
  "normalize_text_for_matching ascii_lib
     (Str [26666, 26666, 24335, 20250, 31038, 24335, 20250, 31038]) =
     [26666, 24335, 20250, 31038] \<and>
   normalize_text_for_matching ascii_lib (Str [26666, 24335, 20250, 31038]) = [] \<and>
   normalize_text_step2 ascii_lib
     (Str [26666, 26666, 24335, 20250, 31038, 24335, 20250, 31038]) =
     [26666, 24335, 20250, 31038] \<and>
   normalize_text_step2 ascii_lib (Str [26666, 24335, 20250, 31038]) = []"
  by (simp add: normalize_text_for_matching_Str normalize_text_step2_Str ascii_lib_def
        translate_kanji_def kanji_num_def CORP_TITLES_def CORP_TITLES_step2_def starts_with_def
        py_isspace_def is_dash_def is_unit_def is_unit_step2_def ascii_lower_def)

lemma ascii_lower_idem: "ascii_lower (ascii_lower s) = ascii_lower s"
  by (induction s) (auto simp: ascii_lower_def)

lemma ascii_lower_touched:
  assumes "c \<in> set (ascii_lower s)" and "touched c"
  shows "c \<in> set s"
proof -
  from assms(1) obtain c' where c': "c' \<in> set s"
    "c = (if 65 \<le> c' \<and> c' \<le> 90 then c' + 32 else c')"
    by (auto simp: ascii_lower_def)
  show ?thesis
  proof (cases "65 \<le> c' \<and> c' \<le> 90")
    case True
    with c' have "97 \<le> c" "c \<le> 122" by simp_all
    then have "\<not> touched c"
      by (simp add: touched_def kanji_num_def py_isspace_def is_dash_def is_unit_def
            is_unit_step2_def)
    with assms(2) show ?thesis by simp
  next
    case False
    with c' show ?thesis by simp
  qed
qed

lemma width_lib_ascii: "width_lib ascii_lib"
  unfolding width_lib_def
proof (intro conjI allI impI)
  fix s c
  assume "c \<in> set (str_lower ascii_lib s) \<and> touched c"
  then show "c \<in> set s"
    using ascii_lower_touched [of c s] by (simp add: ascii_lib_def)
qed (simp_all add: unified_def ascii_lib_def ascii_lower_idem ascii_lower_def)

theorem normalize_idempotent_amended_witness:
  "width_lib ascii_lib \<and>
   normalize_text_for_matching ascii_lib (Str [65, 32, 98, 45, 49, 70]) = [97, 98, 49] \<and>
   \<not> has_title CORP_TITLES [97, 98, 49] \<and>
   normalize_text_for_matching ascii_lib (Str [97, 98, 49]) = [97, 98, 49] \<and>
   normalize_text_step2 ascii_lib (Str [65, 32, 98, 45, 49, 70]) = [65, 98, 49, 70] \<and>
   \<not> has_title CORP_TITLES_step2 [65, 98, 49, 70] \<and>
   normalize_text_step2 ascii_lib (Str [65, 98, 49, 70]) = [65, 98, 49, 70]"
proof -
  have n: "normalize_text_for_matching ascii_lib (Str [65, 32, 98, 45, 49, 70]) = [97, 98, 49]"
    "normalize_text_step2 ascii_lib (Str [65, 32, 98, 45, 49, 70]) = [65, 98, 49, 70]"
    by (simp_all add: normalize_text_for_matching_Str normalize_text_step2_Str ascii_lib_def
        translate_kanji_def kanji_num_def CORP_TITLES_def CORP_TITLES_step2_def starts_with_def
        py_isspace_def is_dash_def is_unit_def is_unit_step2_def ascii_lower_def)
  have t: "\<not> has_title CORP_TITLES [97, 98, 49]"
    "\<not> has_title CORP_TITLES_step2 [65, 98, 49, 70]"
    by (simp_all add: has_title_def CORP_TITLES_def CORP_TITLES_step2_def starts_with_def)
  from normalize_idempotent_amended [of ascii_lib "Str [65, 32, 98, 45, 49, 70]"] width_lib_ascii n t
  show ?thesis
    by simp
qed

section \<open>Properties of the date parsers\<close>























section \<open>The match engine\<close>






lemmas col_defs = COL_ADDRESS_def COL_FACILITY_NAME_def COL_PHONE_def COL_TEL_def COL_ADDR_FULL_def
  COL_CUSTOMER_CODE_def COL_CUSTOMER_NAME_def COL_NORM_ADDR_KEY_def COL_NORM_NAME_KEY_def
  COL_PRICE_DATE_def COL_UID_def COL_ADDR1_def COL_ADDR2_def

lemmas norm_eval = normalize_text_for_matching_Str normalize_text_step2_Str ascii_lib_def
  translate_kanji_def kanji_num_def CORP_TITLES_def CORP_TITLES_step2_def starts_with_def
  py_isspace_def is_dash_def is_unit_def is_unit_step2_def ascii_lower_def

lemma demo_norms:
  "normalize_text_for_matching ascii_lib (Str [49, 45, 50, 32, 109, 97, 105, 110]) = [49, 50, 109, 97, 105, 110]"
  "normalize_text_for_matching ascii_lib (Str [97, 111, 122, 111, 114, 97]) = [97, 111, 122, 111, 114, 97]"
  "normalize_text_for_matching ascii_lib (Str [97, 111, 122, 111]) = [97, 111, 122, 111]"
  "normalize_text_for_matching ascii_lib (Str [49, 32, 50, 32, 109, 97, 105, 110]) = [49, 50, 109, 97, 105, 110]"
  "normalize_text_for_matching ascii_lib (Str [122, 122]) = [122, 122]"
  "normalize_text_for_matching ascii_lib (Str [120]) = [120]"
  by (simp_all add: norm_eval)

lemma demo_norms_step2:
  "normalize_text_step2 ascii_lib (Str [49, 45, 50, 32, 109, 97, 105, 110]) = [49, 50, 109, 97, 105, 110]"
  "normalize_text_step2 ascii_lib (Str [97, 111, 122, 111, 114, 97]) = [97, 111, 122, 111, 114, 97]"
  "normalize_text_step2 ascii_lib (Str [97, 111, 122, 111]) = [97, 111, 122, 111]"
  "normalize_text_step2 ascii_lib (Str [49, 32, 50, 32, 109, 97, 105, 110]) = [49, 50, 109, 97, 105, 110]"
  "normalize_text_step2 ascii_lib (Str [122, 122]) = [122, 122]"
  "normalize_text_step2 ascii_lib (Str [120]) = [120]"
  by (simp_all add: norm_eval)

lemma demo_phones:
  "normalize_phone ascii_lib (Str [48, 51, 45, 49, 50, 51, 52, 45, 53, 54, 55, 56]) =
     [48, 51, 49, 50, 51, 52, 53, 54, 55, 56]"
  "normalize_phone ascii_lib (Str [48, 51, 49, 50, 51, 52, 53, 54, 55, 56]) =
     [48, 51, 49, 50, 51, 52, 53, 54, 55, 56]"
  "normalize_phone ascii_lib (Str [49, 50, 51]) = [49, 50, 51]"
  "normalize_phone ascii_lib NaN = []"
  by (simp_all add: normalize_phone_def isna_def py_str_def ascii_lib_def)

lemma demo_master_keys:
  "master_keys_step6 ascii_lib demo_registry = [demo_keyed]"
  "master_keys_step2 ascii_lib demo_registry = [demo_keyed]"
  by (simp_all add: master_keys_step6_def master_keys_step2_def demo_registry_def demo_keyed_def
        demo_registry_row_def cell_of_def col_defs demo_norms demo_norms_step2 demo_phones)






end
